theory Spec2Isabelle
  imports Main
begin

section \<open>Python values used by the rewriter\<close>

text \<open>
  The exceptions the code of \<^verbatim>\<open>unit_rnn_rewriter_base.py\<close> can raise: the explicit
  \<^verbatim>\<open>raise NotImplementedError()\<close> of the abstract methods, the explicit
  \<^verbatim>\<open>raise RuntimeError("failed to find sequence length.")\<close>, and the exceptions of
  Python's own operations (indexing an empty list, a missing dictionary key, iterating or
  subscripting \<^verbatim>\<open>None\<close>, reading an attribute of \<^verbatim>\<open>None\<close>).
\<close>

datatype error =
    NotImplementedError
  | RuntimeError string
  | IndexError
  | KeyError
  | TypeError
  | AttributeError

text \<open>
  A Python \<^verbatim>\<open>dict\<close> keeps insertion order: an association list, where storing under a
  key that is present replaces the value in place and a new key goes to the end.
\<close>

fun dict_set :: "('k \<times> 'v) list \<Rightarrow> 'k \<Rightarrow> 'v \<Rightarrow> ('k \<times> 'v) list" where
  "dict_set [] k v = [(k, v)]"
| "dict_set ((k', v') # kvs) k v =
     (if k' = k then (k, v) # kvs else (k', v') # dict_set kvs k v)"

fun dict_get :: "('k \<times> 'v) list \<Rightarrow> 'k \<Rightarrow> 'v option" where
  "dict_get [] k = None"
| "dict_get ((k', v') # kvs) k = (if k' = k then Some v' else dict_get kvs k)"

definition keys :: "('k \<times> 'v) list \<Rightarrow> 'k set" where
  "keys kvs = set (map fst kvs)"

section \<open>The graph\<close>

type_synonym tensor_id = string

text \<open>The values of onnx's \<^verbatim>\<open>TensorProto\<close> element types that the code names.\<close>

definition TensorProto_FLOAT :: int where
  "TensorProto_FLOAT = 1"

definition TensorProto_INT32 :: int where
  "TensorProto_INT32 = 6"

definition TensorProto_INT64 :: int where
  "TensorProto_INT64 = 7"

datatype attr_val = AInt int | AInts "int list"

text \<open>
  A node of the graph, with the fields \<^verbatim>\<open>name\<close>, \<^verbatim>\<open>type\<close>, \<^verbatim>\<open>input\<close>, \<^verbatim>\<open>output\<close> and
  \<^verbatim>\<open>attr\<close> the code reads (each prefixed here with \<open>node_\<close>).
\<close>

record node =
  node_name :: string
  node_type :: string
  node_input :: "tensor_id list"
  node_output :: "tensor_id list"
  node_attr :: "(string \<times> attr_val) list"

text \<open>
  Modelled from the spec: the target-graph builder (\<^verbatim>\<open>tf2onnx.graph.Graph\<close>, not in the
  sources at hand): its nodes in creation order, the shape and dtype it records for an
  output identifier, and the counter from which the names of inserted nodes are made.
\<close>

record graph =
  nodes :: "node list"
  shapes :: "tensor_id \<Rightarrow> int list option"
  dtypes :: "tensor_id \<Rightarrow> int option"
  next_name :: nat

definition digit_char :: "nat \<Rightarrow> char" where
  "digit_char d = char_of (48 + d)"

fun string_of_nat :: "nat \<Rightarrow> string" where
  "string_of_nat n =
     (if n < 10 then [digit_char n]
      else string_of_nat (n div 10) @ [digit_char (n mod 10)])"

declare string_of_nat.simps [simp del]

text \<open>
  Modelled from the spec: the name of an inserted node is its operator name and a number
  no other inserted node has; the identifier of its output number \<open>i\<close> is the name,
  a colon and \<open>i\<close>.
\<close>

definition make_name :: "string \<Rightarrow> nat \<Rightarrow> string" where
  "make_name op_name n = op_name @ ''__'' @ string_of_nat n"

definition port_name :: "string \<Rightarrow> nat \<Rightarrow> tensor_id" where
  "port_name nm i = nm @ '':'' @ string_of_nat i"

text \<open>
  Modelled from the spec: the shape and dtype query primitives. A shape that was never
  recorded, or recorded as \<^verbatim>\<open>None\<close>, reads as \<^verbatim>\<open>None\<close>.
\<close>

definition get_shape :: "graph \<Rightarrow> tensor_id \<Rightarrow> int list option" where
  "get_shape gr i = shapes gr i"

definition get_dtype :: "graph \<Rightarrow> tensor_id \<Rightarrow> int option" where
  "get_dtype gr i = dtypes gr i"

definition get_nodes :: "graph \<Rightarrow> node list" where
  "get_nodes gr = nodes gr"

text \<open>
  Modelled from the spec: the node that produces an output identifier, the most recently
  created one first; \<^verbatim>\<open>None\<close> when no node has that output.
\<close>

definition get_node_by_output :: "graph \<Rightarrow> tensor_id \<Rightarrow> node option" where
  "get_node_by_output gr i = find (\<lambda>nd. i \<in> set (node_output nd)) (rev (nodes gr))"

text \<open>
  Modelled from the spec: the node-creation primitive, taking an operator name, the input
  identifiers and an attribute, shape and dtype bundle. The node gets a fresh name and one
  output; \<open>shps\<close> and \<open>dts\<close> are the \<^verbatim>\<open>shapes=\<close> and \<^verbatim>\<open>dtypes=\<close> arguments, the empty
  list when the call does not give them, and are recorded for the outputs in order.
\<close>

definition set_all :: "('k \<Rightarrow> 'v option) \<Rightarrow> ('k \<times> 'v option) list \<Rightarrow> ('k \<Rightarrow> 'v option)" where
  "set_all m kvs = fold (\<lambda>kv m'. m'(fst kv := snd kv)) kvs m"

definition make_node ::
  "graph \<Rightarrow> string \<Rightarrow> tensor_id list \<Rightarrow> (string \<times> attr_val) list \<Rightarrow>
   int list option list \<Rightarrow> int option list \<Rightarrow> node \<times> graph" where
  "make_node gr op_name ins at shps dts =
     (let nm = make_name op_name (next_name gr);
          nd = \<lparr>node_name = nm, node_type = op_name, node_input = ins,
                 node_output = [port_name nm 0], node_attr = at\<rparr>
      in (nd,
          gr\<lparr>nodes := nodes gr @ [nd],
             shapes := set_all (shapes gr) (zip (node_output nd) shps),
             dtypes := set_all (dtypes gr) (zip (node_output nd) dts),
             next_name := Suc (next_name gr)\<rparr>))"

text \<open>
  Modelled from the spec: the slice-builder helper (\<^verbatim>\<open>GraphBuilder.make_slice\<close>), called
  with \<^verbatim>\<open>{"data": d, "axes": a, "starts": s, "ends": e}\<close>. It creates one \<^verbatim>\<open>Slice\<close> node
  over \<open>d\<close> that carries the three lists as attributes, and returns the identifier of
  its output.
\<close>

definition make_slice ::
  "graph \<Rightarrow> tensor_id \<Rightarrow> int list \<Rightarrow> int list \<Rightarrow> int list \<Rightarrow> tensor_id \<times> graph" where
  "make_slice gr data axes starts ends =
     (case make_node gr ''Slice'' [data]
             [(''starts'', AInts starts), (''ends'', AInts ends), (''axes'', AInts axes)] [] [] of
        (nd, gr') \<Rightarrow> (hd (node_output nd), gr'))"

text \<open>
  Modelled from the spec: the consumer-rewiring primitive
  \<^verbatim>\<open>replaceAllInputs(nodeSet, oldId, newId)\<close>: in every node of the set, each input that
  is \<open>oldId\<close> becomes \<open>newId\<close>.
\<close>

definition replace_input :: "tensor_id \<Rightarrow> tensor_id \<Rightarrow> node \<Rightarrow> node" where
  "replace_input old_id new_id nd =
     nd\<lparr>node_input := map (\<lambda>i. if i = old_id then new_id else i) (node_input nd)\<rparr>"

definition replace_all_inputs :: "graph \<Rightarrow> node list \<Rightarrow> tensor_id \<Rightarrow> tensor_id \<Rightarrow> graph" where
  "replace_all_inputs gr ops old_id new_id =
     gr\<lparr>nodes := map (\<lambda>nd. if nd \<in> set ops then replace_input old_id new_id nd else nd)
                     (nodes gr)\<rparr>"


section \<open>Loop properties and the context\<close>

text \<open>
  Modelled from the spec: the descriptors the external loop extractor hands over
  (\<^verbatim>\<open>LoopProperties\<close> and its variables, not in the sources at hand). A tensor value info
  carries the identifier \<^verbatim>\<open>id\<close> (here \<open>tvi_id\<close>); a state variable carries the value fed
  into the next iteration and the value read inside the body.
\<close>

record tensor_value_info =
  tvi_id :: tensor_id

record state_variable =
  next_iteration_input :: tensor_value_info
  switch_true_identity_output :: tensor_value_info

record loop_properties =
  state_inputs :: "tensor_value_info list"
  state_outputs :: "tensor_value_info list"
  scan_inputs :: "tensor_value_info list"
  scan_outputs :: "tensor_value_info list"
  scan_inputs_initial_values :: "tensor_id list"
  scan_outputs_exits :: "tensor_value_info list"

text \<open>
  Modelled from the spec: the result of a structural match (\<^verbatim>\<open>MatchResult\<close> of the graph
  matcher) is a binding table from the names of the pattern to the nodes bound to them,
  read with \<^verbatim>\<open>get_op\<close>. The object is truthy whatever it holds; a failed match is
  \<^verbatim>\<open>None\<close>.
\<close>

type_synonym match_result = "(string \<times> node) list"

definition get_op :: "match_result \<Rightarrow> string \<Rightarrow> error + node" where
  "get_op m nm = (case dict_get m nm of None \<Rightarrow> Inl KeyError | Some nd \<Rightarrow> Inr nd)"

text \<open>
  \<^verbatim>\<open>UnitRnnContext\<close>, with the two fields of the base \<^verbatim>\<open>Context\<close> that the code reads
  (\<^verbatim>\<open>while_context_scope\<close>, \<^verbatim>\<open>loop_properties\<close>) and the field \<^verbatim>\<open>rnn_node\<close> that
  \<^verbatim>\<open>rewrite\<close> adds.
\<close>

record unit_rnn_context =
  while_context_scope :: string
  loop_properties :: loop_properties
  rnn_scope :: "string option"
  cell_match :: "match_result option"
  weights :: "(string \<times> tensor_id) list"
  seq_len_node :: "node option"
  state_variables :: "(string \<times> state_variable) list"
  input_size :: "int option"
  hidden_size :: "int option"
  attributes :: "(string \<times> attr_val) list"
  onnx_input_ids :: "(string \<times> tensor_id) list"
  rnn_node :: "node option"

text \<open>\<^verbatim>\<open>UnitRnnContext.__init__\<close>, for a loop with the given scope and properties.\<close>

definition create_context :: "string \<Rightarrow> loop_properties \<Rightarrow> unit_rnn_context" where
  "create_context scope lp =
     \<lparr>while_context_scope = scope, loop_properties = lp, rnn_scope = None, cell_match = None,
      weights = [], seq_len_node = None, state_variables = [], input_size = None,
      hidden_size = None, attributes = [], onnx_input_ids = [], rnn_node = None\<rparr>"

section \<open>Collaborators\<close>

text \<open>
  A method a subclass supplies, and a finder or connector of a state-variable handler, is
  called with the context and can reach the graph through \<^verbatim>\<open>self.g\<close>: it is a function of
  the graph and the context that returns its result, or the exception it raises, and the
  graph and context it leaves.
\<close>

type_synonym 'a hook = "graph \<times> unit_rnn_context \<Rightarrow> (error + 'a) \<times> graph \<times> unit_rnn_context"

text \<open>A handler is a dictionary \<^verbatim>\<open>{var_name: (finder, connector)}\<close>.\<close>

type_synonym handler = "(string \<times> (state_variable option hook \<times> unit hook)) list"

text \<open>
  The functions of other modules that the code calls and that are not in the sources at
  hand, taken as parameters:
  \<^item> \<open>get_rnn_scope_name\<close> and \<open>parse_rnn_loop\<close> of \<^verbatim>\<open>rnn_utils\<close>; the latter is handed
    the graph and the loop properties and returns a truth value and what it leaves of both;
  \<^item> \<open>find_subgraph\<close> of \<^verbatim>\<open>LoopRewriterBase\<close>, of which the code keeps the first
    component, the nodes of the loop body (the last argument is \<^verbatim>\<open>merge_as_end\<close>);
  \<^item> \<open>match_cell_ops unittype\<close>, which is
    \<^verbatim>\<open>GraphMatcher(get_pattern(unittype), allow_reorder=True).match_ops\<close>, and
    \<open>match_seq_len\<close>, which is \<^verbatim>\<open>GraphMatcher(seq_len_pattern).match_op\<close>;
  \<^item> \<open>is_tf_select_op\<close> of \<^verbatim>\<open>utils\<close>.
\<close>

record env =
  get_rnn_scope_name :: "string \<Rightarrow> string"
  parse_rnn_loop ::
    "graph \<Rightarrow> loop_properties \<Rightarrow> string option \<Rightarrow> string \<Rightarrow>
     bool \<times> graph \<times> loop_properties"
  find_subgraph :: "tensor_id set \<Rightarrow> tensor_id set \<Rightarrow> graph \<Rightarrow> bool \<Rightarrow> node list"
  match_cell_ops :: "string \<Rightarrow> graph \<Rightarrow> node list \<Rightarrow> match_result list"
  match_seq_len :: "graph \<Rightarrow> node \<Rightarrow> match_result option"
  is_tf_select_op :: "node \<Rightarrow> bool"

text \<open>
  The methods and the handler list a subclass of \<^verbatim>\<open>UnitRnnRewriterBase\<close> supplies.
  \<^verbatim>\<open>get_weight_and_bias\<close> returns a dictionary or \<^verbatim>\<open>None\<close>; \<^verbatim>\<open>state_variable_handlers\<close> is
  \<^verbatim>\<open>None\<close> until a subclass sets it.
\<close>

record rewriter =
  find_cell :: "match_result option hook"
  get_weight_and_bias :: "(string \<times> tensor_id) list option hook"
  parse_attributes :: "bool hook"
  is_valid :: "bool hook"
  process_weights_and_bias :: "unit hook"
  process_var_init_nodes :: "unit hook"
  create_rnn_node :: "node option hook"
  state_variable_handlers :: "handler list option"

text \<open>
  What \<^verbatim>\<open>UnitRnnRewriterBase\<close> itself defines: four methods raise
  \<^verbatim>\<open>NotImplementedError\<close>, \<^verbatim>\<open>parse_attributes\<close> and \<^verbatim>\<open>is_valid\<close> return \<^verbatim>\<open>True\<close>.
\<close>

definition not_implemented :: "'a hook" where
  "not_implemented w = (Inl NotImplementedError, w)"

definition returns_true :: "bool hook" where
  "returns_true w = (Inr True, w)"

definition base_rewriter :: rewriter where
  "base_rewriter =
     \<lparr>find_cell = not_implemented, get_weight_and_bias = not_implemented,
      parse_attributes = returns_true, is_valid = returns_true,
      process_weights_and_bias = not_implemented, process_var_init_nodes = not_implemented,
      create_rnn_node = not_implemented, state_variable_handlers = None\<rparr>"

section \<open>The state of a run\<close>

text \<open>
  What a method of the rewriter can write: the graph \<^verbatim>\<open>self.g\<close>, the context it is
  given, and the field \<^verbatim>\<open>self.state_variable_handler\<close>.
\<close>

record rewriter_state =
  self_g :: graph
  cx :: unit_rnn_context
  state_variable_handler :: "handler option"

type_synonym 'a action = "rewriter_state \<Rightarrow> (error + 'a) \<times> rewriter_state"

text \<open>
  Sequencing: an exception ends the run with the state as it is then; a value goes on.
\<close>

definition and_then :: "'a action \<Rightarrow> ('a \<Rightarrow> 'b action) \<Rightarrow> 'b action" where
  "and_then m f st = (case m st of (Inl e, st') \<Rightarrow> (Inl e, st') | (Inr a, st') \<Rightarrow> f a st')"

definition return_value :: "'a \<Rightarrow> 'a action" where
  "return_value a st = (Inr a, st)"

definition set_context :: "(unit_rnn_context \<Rightarrow> unit_rnn_context) \<Rightarrow> unit action" where
  "set_context f st = (Inr (), st\<lparr>cx := f (cx st)\<rparr>)"

definition run_hook :: "'a hook \<Rightarrow> 'a action" where
  "run_hook h st =
     (case h (self_g st, cx st) of (r, gr', c') \<Rightarrow> (r, st\<lparr>self_g := gr', cx := c'\<rparr>))"

definition read_state :: "(rewriter_state \<Rightarrow> 'a) \<Rightarrow> 'a action" where
  "read_state f st = (Inr (f st), st)"

definition result_of :: "(rewriter_state \<Rightarrow> error + 'a) \<Rightarrow> 'a action" where
  "result_of f st = (f st, st)"

section \<open>Feasibility: \<^verbatim>\<open>need_rewrite\<close> and what it calls\<close>

text \<open>
  \<^verbatim>\<open>_match_cell\<close>: the nodes of the loop body between the state and scan inputs and the
  state and scan outputs are matched against the pattern of the unit type; exactly one
  match is returned, any other number of matches is \<^verbatim>\<open>None\<close>.
\<close>

definition match_cell :: "env \<Rightarrow> graph \<Rightarrow> unit_rnn_context \<Rightarrow> string \<Rightarrow> match_result option" where
  "match_cell ev gr c unittype =
     (let loop_props = loop_properties c;
          inputs = state_inputs loop_props @ scan_inputs loop_props;
          input_ids = map tvi_id inputs;
          outputs = state_outputs loop_props @ scan_outputs loop_props;
          output_ids = map tvi_id outputs;
          body_graph_ops = find_subgraph ev (set input_ids) (set output_ids) gr True;
          match_results = match_cell_ops ev unittype gr body_graph_ops
      in if length match_results \<noteq> 1 then None else Some (hd match_results))"

text \<open>A subclass's \<^verbatim>\<open>find_cell\<close> that returns \<^verbatim>\<open>self._match_cell(context, unittype)\<close>.\<close>

definition find_cell_by_match :: "env \<Rightarrow> string \<Rightarrow> match_result option hook" where
  "find_cell_by_match ev unittype w = (Inr (match_cell ev (fst w) (snd w) unittype), w)"

text \<open>
  \<^verbatim>\<open>get_state_variables\<close>. The inner loop runs the finders of one handler in the order of
  its dictionary: a state variable that is found is stored in
  \<^verbatim>\<open>context.state_variables\<close>, and the first finder that returns nothing ends the loop
  with \<^verbatim>\<open>can_handle = False\<close>. The outer loop stores the first handler whose finders all
  succeed in \<^verbatim>\<open>self.state_variable_handler\<close> and returns \<^verbatim>\<open>True\<close>; with no such handler
  it returns \<^verbatim>\<open>False\<close>. Iterating \<^verbatim>\<open>None\<close> raises \<^verbatim>\<open>TypeError\<close>.
\<close>

fun run_finders :: "handler \<Rightarrow> bool action" where
  "run_finders [] st = (Inr True, st)"
| "run_finders ((var_name, funcs) # rest) st =
     (case run_hook (fst funcs) st of
        (Inl e, st') \<Rightarrow> (Inl e, st')
      | (Inr None, st') \<Rightarrow> (Inr False, st')
      | (Inr (Some state_variable), st') \<Rightarrow>
          run_finders rest
            (st'\<lparr>cx := (cx st')\<lparr>state_variables :=
                     dict_set (state_variables (cx st')) var_name state_variable\<rparr>\<rparr>))"

fun run_handlers :: "handler list \<Rightarrow> bool action" where
  "run_handlers [] st = (Inr False, st)"
| "run_handlers (handler # rest) st =
     (case run_finders handler st of
        (Inl e, st') \<Rightarrow> (Inl e, st')
      | (Inr can_handle, st') \<Rightarrow>
          if can_handle then (Inr True, st'\<lparr>state_variable_handler := Some handler\<rparr>)
          else run_handlers rest st')"

definition get_state_variables :: "rewriter \<Rightarrow> bool action" where
  "get_state_variables rw st =
     (case state_variable_handlers rw of
        None \<Rightarrow> (Inl TypeError, st)
      | Some handlers \<Rightarrow> run_handlers handlers st)"

text \<open>
  \<^verbatim>\<open>find_sequence_length_node\<close>. The first value of \<^verbatim>\<open>context.state_variables\<close> is taken
  (\<^verbatim>\<open>IndexError\<close> when there is none) and the node producing its next-iteration input is
  looked up; \<^verbatim>\<open>is_tf_select_op\<close> reads the type of that node, which is an
  \<^verbatim>\<open>AttributeError\<close> when no node produces the identifier.
\<close>

definition find_sequence_length_node ::
  "env \<Rightarrow> graph \<Rightarrow> unit_rnn_context \<Rightarrow> error + node option" where
  "find_sequence_length_node ev gr c =
     (case state_variables c of
        [] \<Rightarrow> Inl IndexError
      | (var_name, state_variable) # _ \<Rightarrow>
          (case get_node_by_output gr (tvi_id (next_iteration_input state_variable)) of
             None \<Rightarrow> Inl AttributeError
           | Some next_iter_input_node \<Rightarrow>
               if \<not> is_tf_select_op ev next_iter_input_node then Inr None
               else (case match_seq_len ev gr next_iter_input_node of
                       None \<Rightarrow> Inl (RuntimeError ''failed to find sequence length.'')
                     | Some match_result \<Rightarrow>
                         (case get_op match_result ''seq_len_node'' of
                            Inl e \<Rightarrow> Inl e
                          | Inr nd \<Rightarrow> Inr (Some nd)))))"

text \<open>\<^verbatim>\<open>parse_unit_rnn\<close>, step by step as the source has it.\<close>

definition parse_unit_rnn :: "env \<Rightarrow> rewriter \<Rightarrow> bool action" where
  "parse_unit_rnn ev rw =
     and_then (run_hook (find_cell rw)) (\<lambda>found.
     case found of
       None \<Rightarrow> return_value False
     | Some m \<Rightarrow>
     and_then (set_context (\<lambda>c. c\<lparr>cell_match := Some m\<rparr>)) (\<lambda>_.
     and_then (run_hook (get_weight_and_bias rw)) (\<lambda>found_weights.
     case found_weights of
       None \<Rightarrow> return_value False
     | Some ws \<Rightarrow>
     if ws = [] then return_value False else
     and_then (set_context (\<lambda>c. c\<lparr>weights := ws\<rparr>)) (\<lambda>_.
     and_then (get_state_variables rw) (\<lambda>found_variables.
     if \<not> found_variables then return_value False else
     and_then (result_of (\<lambda>st. find_sequence_length_node ev (self_g st) (cx st))) (\<lambda>seq_len.
     and_then (case seq_len of
                 None \<Rightarrow> return_value ()
               | Some nd \<Rightarrow> set_context (\<lambda>c. c\<lparr>seq_len_node := Some nd\<rparr>)) (\<lambda>_.
     and_then (read_state (\<lambda>st. scan_inputs_initial_values (loop_properties (cx st)))) (\<lambda>inputs.
     if length inputs \<noteq> 1 then return_value False else
     and_then (set_context (\<lambda>c. c\<lparr>onnx_input_ids :=
                 dict_set (onnx_input_ids c) ''X'' (hd inputs)\<rparr>)) (\<lambda>_.
     and_then (run_hook (parse_attributes rw)) (\<lambda>parsed.
     if \<not> parsed then return_value False else return_value True))))))))))"

definition run_parse_rnn_loop :: "env \<Rightarrow> bool action" where
  "run_parse_rnn_loop ev st =
     (case parse_rnn_loop ev (self_g st) (loop_properties (cx st)) (rnn_scope (cx st))
             (while_context_scope (cx st)) of
        (parsed, gr', lp') \<Rightarrow>
          (Inr parsed, st\<lparr>self_g := gr', cx := (cx st)\<lparr>loop_properties := lp'\<rparr>\<rparr>))"

definition need_rewrite :: "env \<Rightarrow> rewriter \<Rightarrow> bool action" where
  "need_rewrite ev rw =
     and_then (set_context (\<lambda>c. c\<lparr>rnn_scope :=
                 Some (get_rnn_scope_name ev (while_context_scope c))\<rparr>)) (\<lambda>_.
     and_then (run_parse_rnn_loop ev) (\<lambda>parsed.
     if \<not> parsed then return_value False else
     and_then (parse_unit_rnn ev rw) (\<lambda>unit_rnn.
     if \<not> unit_rnn then return_value False else
     and_then (run_hook (is_valid rw)) (\<lambda>valid.
     if \<not> valid then return_value False else return_value True))))"

section \<open>Reconstruction: \<^verbatim>\<open>rewrite\<close> and what it calls\<close>

text \<open>
  \<^verbatim>\<open>process_seq_length\<close>. \<^verbatim>\<open>context.onnx_input_ids["X"]\<close> is read before any node is
  made. The \<^verbatim>\<open>Shape\<close>, the \<^verbatim>\<open>Cast\<close> to \<^verbatim>\<open>FLOAT\<close> and the slice for the batch size are made
  whether or not a sequence-length node was found; the other four nodes only when none
  was. A node that \<open>make_node\<close> made has one output, its \<^verbatim>\<open>output[0]\<close>.
\<close>

definition process_seq_length :: "unit action" where
  "process_seq_length st =
     (let seq_len = seq_len_node (cx st) in
      case dict_get (onnx_input_ids (cx st)) ''X'' of
        None \<Rightarrow> (Inl KeyError, st)
      | Some x \<Rightarrow>
     (case make_node (self_g st) ''Shape'' [x] [] [] [] of (shape_node, g1) \<Rightarrow>
     (case make_node g1 ''Cast'' [hd (node_output shape_node)]
             [(''to'', AInt TensorProto_FLOAT)]
             [get_shape g1 (hd (node_output shape_node))] [] of (cast_shape_node, g2) \<Rightarrow>
     (case make_slice g2 (hd (node_output cast_shape_node)) [0] [1] [2] of
        (batchsize_node, g3) \<Rightarrow>
     (case seq_len of
        Some nd \<Rightarrow>
          (case node_output nd of
             [] \<Rightarrow> (Inl IndexError, st\<lparr>self_g := g3\<rparr>)
           | out0 # _ \<Rightarrow>
               (Inr (), st\<lparr>self_g := g3,
                           cx := (cx st)\<lparr>onnx_input_ids :=
                                   dict_set (onnx_input_ids (cx st)) ''sequence_lens'' out0\<rparr>\<rparr>))
      | None \<Rightarrow>
     (case make_node g3 ''Cast'' [batchsize_node] [(''to'', AInt TensorProto_INT64)] [] [] of
        (repeat_node, g4) \<Rightarrow>
     (case make_slice g4 (hd (node_output cast_shape_node)) [0] [0] [1] of
        (timestep_node, g5) \<Rightarrow>
     (case make_node g5 ''Tile'' [timestep_node, hd (node_output repeat_node)] [] [] [] of
        (tile_node, g6) \<Rightarrow>
     (case make_node g6 ''Cast'' [hd (node_output tile_node)]
             [(''to'', AInt TensorProto_INT32)] [] [] of (made_seq_len_node, g7) \<Rightarrow>
        (Inr (), st\<lparr>self_g := g7,
                    cx := (cx st)\<lparr>onnx_input_ids :=
                            dict_set (onnx_input_ids (cx st)) ''sequence_lens''
                              (hd (node_output made_seq_len_node))\<rparr>\<rparr>))))))))))"

text \<open>
  \<^verbatim>\<open>connect_unit_rnn_output_to_graph\<close>. With no exit of a scan output it returns at once.
  Otherwise the shape of the first output of \<^verbatim>\<open>context.rnn_node\<close> is read (\<^verbatim>\<open>None\<close> cannot
  be subscripted, and entry 3 of a shorter list is an \<^verbatim>\<open>IndexError\<close>), a \<^verbatim>\<open>Squeeze\<close> over
  axis 1 is made, and the inputs of all nodes of the graph that are the identifier of the
  first exit are replaced by the output of the \<^verbatim>\<open>Squeeze\<close>.
\<close>

definition connect_unit_rnn_output_to_graph :: "unit action" where
  "connect_unit_rnn_output_to_graph st =
     (case scan_outputs_exits (loop_properties (cx st)) of
        [] \<Rightarrow> (Inr (), st)
      | out0 # _ \<Rightarrow>
     (let gather_output_id = tvi_id out0 in
      case rnn_node (cx st) of
        None \<Rightarrow> (Inl AttributeError, st)
      | Some rnn \<Rightarrow>
     (case node_output rnn of
        [] \<Rightarrow> (Inl IndexError, st)
      | output_id # _ \<Rightarrow>
     (case get_shape (self_g st) output_id of
        None \<Rightarrow> (Inl TypeError, st)
      | Some rnn_output_shape \<Rightarrow>
     if length rnn_output_shape < 4 then (Inl IndexError, st) else
     (let squeeze_output_shape =
            [rnn_output_shape ! 0, rnn_output_shape ! 2, rnn_output_shape ! 3] in
      case make_node (self_g st) ''Squeeze'' [output_id] [(''axes'', AInts [1])]
             [Some squeeze_output_shape] [get_dtype (self_g st) output_id] of
        (squeeze_node, g1) \<Rightarrow>
          (Inr (), st\<lparr>self_g := replace_all_inputs g1 (get_nodes g1) gather_output_id
                                    (hd (node_output squeeze_node))\<rparr>))))))"

text \<open>
  \<^verbatim>\<open>process_outputs\<close>: the connectors of the selected handler in the order of its
  dictionary, then the scan output. \<^verbatim>\<open>self.state_variable_handler\<close> is \<^verbatim>\<open>None\<close> until
  \<^verbatim>\<open>get_state_variables\<close> has selected a handler.
\<close>

fun run_connectors :: "handler \<Rightarrow> unit action" where
  "run_connectors [] st = (Inr (), st)"
| "run_connectors ((var_name, funcs) # rest) st =
     (case run_hook (snd funcs) st of
        (Inl e, st') \<Rightarrow> (Inl e, st')
      | (Inr _, st') \<Rightarrow> run_connectors rest st')"

definition process_outputs :: "unit action" where
  "process_outputs st =
     (case state_variable_handler st of
        None \<Rightarrow> (Inl AttributeError, st)
      | Some handler \<Rightarrow>
          and_then (run_connectors handler) (\<lambda>_. connect_unit_rnn_output_to_graph) st)"

datatype REWRITER_RESULT = SKIP | OK | FAIL

definition rewrite :: "rewriter \<Rightarrow> REWRITER_RESULT action" where
  "rewrite rw =
     and_then (run_hook (process_weights_and_bias rw)) (\<lambda>_.
     and_then process_seq_length (\<lambda>_.
     and_then (run_hook (process_var_init_nodes rw)) (\<lambda>_.
     and_then (run_hook (create_rnn_node rw)) (\<lambda>made.
     and_then (set_context (\<lambda>c. c\<lparr>rnn_node := made\<rparr>)) (\<lambda>_.
     and_then process_outputs (\<lambda>_.
     return_value OK))))))"

section \<open>What the synthesized nodes compute\<close>

text \<open>
  Modelled from the spec: the run-time meaning of the four target operators that
  \<^verbatim>\<open>process_seq_length\<close> emits, on one-axis tensors: \<^verbatim>\<open>Shape\<close> derives the run-time shape
  of its input, \<^verbatim>\<open>Slice\<close> cuts a range out of one axis, \<^verbatim>\<open>Tile\<close> replicates by count, and
  \<^verbatim>\<open>Cast\<close> converts the element type. A tensor is its element type and its elements; the
  elements met here are whole numbers, also where the element type is \<^verbatim>\<open>FLOAT\<close>.
\<close>

datatype tensor = Tensor (elem_type: int) (elems: "int list")

text \<open>The number of binary digits of a natural number.\<close>

fun bitlen :: "nat \<Rightarrow> nat" where
  "bitlen n = (if n = 0 then 0 else Suc (bitlen (n div 2)))"

declare bitlen.simps [simp del]

text \<open>
  The single-precision float nearest to a whole number \<open>n\<close> with \<open>\<bar>n\<bar> < 2 ^ 64\<close>: the
  significand keeps 24 binary digits, rounded to nearest, ties to even.
\<close>

definition float32_round :: "int \<Rightarrow> int" where
  "float32_round n =
     (let a = nat \<bar>n\<bar>; len = bitlen a in
      if len \<le> 24 then n
      else (let k = len - 24;
                q = a div 2 ^ k;
                r = a mod 2 ^ k;
                half = 2 ^ (k - 1);
                q' = (if half < r \<or> (r = half \<and> odd q) then q + 1 else q)
            in sgn n * int (q' * 2 ^ k)))"

text \<open>
  \<^verbatim>\<open>Cast\<close>: to \<^verbatim>\<open>FLOAT\<close> each element is rounded to single precision; to \<^verbatim>\<open>INT64\<close> or
  \<^verbatim>\<open>INT32\<close> an element inside the range of the type is kept, and the result for one
  outside it is not said (\<open>None\<close>).
\<close>

definition cast_tensor :: "int \<Rightarrow> tensor \<Rightarrow> tensor option" where
  "cast_tensor to t =
     (if to = TensorProto_FLOAT then Some (Tensor TensorProto_FLOAT (map float32_round (elems t)))
      else if to = TensorProto_INT64 then
        (if list_all (\<lambda>v. - (2 ^ 63) \<le> v \<and> v < 2 ^ 63) (elems t)
         then Some (Tensor TensorProto_INT64 (elems t)) else None)
      else if to = TensorProto_INT32 then
        (if list_all (\<lambda>v. - (2 ^ 31) \<le> v \<and> v < 2 ^ 31) (elems t)
         then Some (Tensor TensorProto_INT32 (elems t)) else None)
      else None)"

text \<open>
  \<^verbatim>\<open>Slice\<close> along axis 0 from \<open>start\<close> to \<open>stop\<close>: an index below zero counts from the
  end, and both are clamped to the length.
\<close>

definition slice_tensor :: "int \<Rightarrow> int \<Rightarrow> tensor \<Rightarrow> tensor" where
  "slice_tensor start stop t =
     (let n = int (length (elems t));
          clamp = (\<lambda>i. if i < 0 then max 0 (i + n) else min i n);
          s = clamp start;
          e = clamp stop
      in Tensor (elem_type t) (take (nat (e - s)) (drop (nat s) (elems t))))"

text \<open>\<^verbatim>\<open>Tile\<close> of a one-axis tensor: \<open>repeats\<close> is one \<^verbatim>\<open>INT64\<close> count.\<close>

definition tile_tensor :: "tensor \<Rightarrow> tensor \<Rightarrow> tensor option" where
  "tile_tensor t repeats =
     (case elems repeats of
        [r] \<Rightarrow>
          if elem_type repeats = TensorProto_INT64 \<and> 0 \<le> r
          then Some (Tensor (elem_type t) (concat (replicate (nat r) (elems t))))
          else None
      | _ \<Rightarrow> None)"

text \<open>
  The value of an identifier of the graph at run time, where \<open>runtime_shape\<close> gives the
  shape each tensor has then. The graph may be cyclic, so the evaluation carries fuel:
  \<open>None\<close> is no value within the fuel, or an operator or an argument outside the above.
\<close>

fun eval_tensor :: "nat \<Rightarrow> graph \<Rightarrow> (tensor_id \<Rightarrow> nat list option) \<Rightarrow> tensor_id \<Rightarrow> tensor option" where
  "eval_tensor 0 gr runtime_shape i = None"
| "eval_tensor (Suc fuel) gr runtime_shape i =
     (case get_node_by_output gr i of
        None \<Rightarrow> None
      | Some nd \<Rightarrow>
          if node_type nd = ''Shape'' then
            (case node_input nd of
               [x] \<Rightarrow> map_option (\<lambda>dims. Tensor TensorProto_INT64 (map int dims)) (runtime_shape x)
             | _ \<Rightarrow> None)
          else if node_type nd = ''Cast'' then
            (case (node_input nd, dict_get (node_attr nd) ''to'') of
               ([x], Some (AInt to)) \<Rightarrow>
                 (case eval_tensor fuel gr runtime_shape x of
                    None \<Rightarrow> None
                  | Some t \<Rightarrow> cast_tensor to t)
             | _ \<Rightarrow> None)
          else if node_type nd = ''Slice'' then
            (case (node_input nd, dict_get (node_attr nd) ''axes'',
                   dict_get (node_attr nd) ''starts'', dict_get (node_attr nd) ''ends'') of
               ([x], Some (AInts [axis]), Some (AInts [start]), Some (AInts [stop])) \<Rightarrow>
                 if axis = 0
                 then map_option (slice_tensor start stop) (eval_tensor fuel gr runtime_shape x)
                 else None
             | _ \<Rightarrow> None)
          else if node_type nd = ''Tile'' then
            (case node_input nd of
               [x, repeats] \<Rightarrow>
                 (case (eval_tensor fuel gr runtime_shape x,
                        eval_tensor fuel gr runtime_shape repeats) of
                    (Some t, Some r) \<Rightarrow> tile_tensor t r
                  | _ \<Rightarrow> None)
             | _ \<Rightarrow> None)
          else None)"

section \<open>Frame conditions\<close>

text \<open>
  An action preserves a component of the state when the component is the same after the
  action as before, whatever the action returns or raises. The finders of a list of
  handlers preserve it when each of them does.
\<close>

definition preserves :: "(rewriter_state \<Rightarrow> 'b) \<Rightarrow> 'a action \<Rightarrow> bool" where
  "preserves p m = (\<forall>st. p (snd (m st)) = p st)"

definition finders_preserve :: "(rewriter_state \<Rightarrow> 'b) \<Rightarrow> handler list \<Rightarrow> bool" where
  "finders_preserve p handlers =
     (\<forall>handler \<in> set handlers. \<forall>entry \<in> set handler. preserves p (run_hook (fst (snd entry))))"

text \<open>
  The collaborators that \<^verbatim>\<open>need_rewrite\<close> calls preserve a component: the loop parser, the
  four methods of the subclass, and the finders of the handlers.
\<close>

definition feasibility_preserves :: "(rewriter_state \<Rightarrow> 'b) \<Rightarrow> env \<Rightarrow> rewriter \<Rightarrow> bool" where
  "feasibility_preserves p ev rw =
     (preserves p (run_parse_rnn_loop ev) \<and>
      preserves p (run_hook (find_cell rw)) \<and>
      preserves p (run_hook (get_weight_and_bias rw)) \<and>
      preserves p (run_hook (parse_attributes rw)) \<and>
      preserves p (run_hook (is_valid rw)) \<and>
      (case state_variable_handlers rw of
         None \<Rightarrow> True
       | Some handlers \<Rightarrow> finders_preserve p handlers))"


text \<open>The scan inputs of the loop and the operand table of the context.\<close>

definition scan_X :: "rewriter_state \<Rightarrow> tensor_id list \<times> (string \<times> tensor_id) list" where
  "scan_X st = (scan_inputs_initial_values (loop_properties (cx st)), onnx_input_ids (cx st))"

definition vars_of :: "rewriter_state \<Rightarrow> (string \<times> state_variable) list" where
  "vars_of st = state_variables (cx st)"

section \<open>What the finders of a handler do\<close>

text \<open>
  The words of the spec on a handler, said of its finders one by one. All finders of a
  handler find their variable: each finder, called in the order of the dictionary on the
  state the previous ones left, returns a state variable, which is stored under its name
  in \<^verbatim>\<open>context.state_variables\<close>.
\<close>

inductive finders_all_find :: "handler \<Rightarrow> rewriter_state \<Rightarrow> rewriter_state \<Rightarrow> bool" where
  no_finder: "finders_all_find [] st st"
| finder_finds:
    "run_hook (fst funcs) st = (Inr (Some state_variable), st1) \<Longrightarrow>
     finders_all_find rest
       (st1\<lparr>cx := (cx st1)\<lparr>state_variables :=
                dict_set (state_variables (cx st1)) var_name state_variable\<rparr>\<rparr>) st2 \<Longrightarrow>
     finders_all_find ((var_name, funcs) # rest) st st2"

text \<open>
  A handler has a variable whose finder fails: the finders before it find their
  variables, and the finder of \<open>var_name\<close> returns nothing.
\<close>

inductive a_finder_fails :: "handler \<Rightarrow> rewriter_state \<Rightarrow> rewriter_state \<Rightarrow> bool" where
  finder_fails:
    "finders_all_find resolved st st1 \<Longrightarrow>
     run_hook (fst funcs) st1 = (Inr None, st2) \<Longrightarrow>
     a_finder_fails (resolved @ (var_name, funcs) # unreached) st st2"

text \<open>Each handler of a list, tried in turn, has a variable whose finder fails.\<close>

inductive each_has_failing_finder ::
  "handler list \<Rightarrow> rewriter_state \<Rightarrow> rewriter_state \<Rightarrow> bool" where
  no_handler: "each_has_failing_finder [] st st"
| handler_fails:
    "a_finder_fails handler st st1 \<Longrightarrow>
     each_has_failing_finder rest st1 st2 \<Longrightarrow>
     each_has_failing_finder (handler # rest) st st2"



section \<open>A small loop\<close>

text \<open>
  A loop body with an addition and a selection, a state variable fed by each of them, and
  collaborators that read only: the matcher finds one cell for the unit type \<open>lstm\<close>,
  two for \<open>gru\<close> and none for any other, and no sequence-length pattern.
\<close>

definition ex_add :: node where
  "ex_add = \<lparr>node_name = ''rnn/while/add'', node_type = ''Add'',
             node_input = [''rnn/while/Identity:0'', ''rnn/while/read:0''],
             node_output = [''rnn/while/add:0''], node_attr = []\<rparr>"

definition ex_select :: node where
  "ex_select = \<lparr>node_name = ''rnn/while/Select'', node_type = ''Select'',
                node_input = [''rnn/while/GreaterEqual:0'', ''rnn/while/Identity:0'',
                              ''rnn/while/add:0''],
                node_output = [''rnn/while/Select:0''], node_attr = []\<rparr>"

definition ex_graph :: graph where
  "ex_graph = \<lparr>nodes = [ex_add, ex_select], shapes = (\<lambda>_. None), dtypes = (\<lambda>_. None),
               next_name = 0\<rparr>"

definition ex_var :: state_variable where
  "ex_var = \<lparr>next_iteration_input = \<lparr>tvi_id = ''rnn/while/add:0''\<rparr>,
             switch_true_identity_output = \<lparr>tvi_id = ''rnn/while/Identity:0''\<rparr>\<rparr>"

definition ex_var_select :: state_variable where
  "ex_var_select = \<lparr>next_iteration_input = \<lparr>tvi_id = ''rnn/while/Select:0''\<rparr>,
                    switch_true_identity_output = \<lparr>tvi_id = ''rnn/while/Identity:0''\<rparr>\<rparr>"

definition ex_loop :: "tensor_id list \<Rightarrow> loop_properties" where
  "ex_loop scan_values =
     \<lparr>state_inputs = [], state_outputs = [], scan_inputs = [], scan_outputs = [],
      scan_inputs_initial_values = scan_values,
      scan_outputs_exits = [\<lparr>tvi_id = ''rnn/exit:0''\<rparr>]\<rparr>"

definition ex_env :: env where
  "ex_env =
     \<lparr>get_rnn_scope_name = (\<lambda>scope. scope),
      parse_rnn_loop = (\<lambda>gr lp scope while_scope. (True, gr, lp)),
      find_subgraph = (\<lambda>ins outs gr merge_as_end. nodes gr),
      match_cell_ops = (\<lambda>unittype gr ops.
        if unittype = ''lstm'' then [[(''cell'', ex_add)]]
        else if unittype = ''gru'' then [[(''cell'', ex_add)], [(''cell'', ex_select)]]
        else []),
      match_seq_len = (\<lambda>gr nd. None),
      is_tf_select_op = (\<lambda>nd. node_type nd = ''Select'')\<rparr>"

definition finder_of :: "state_variable option \<Rightarrow> state_variable option hook" where
  "finder_of found w = (Inr found, w)"

definition connector_noop :: "unit hook" where
  "connector_noop w = (Inr (), w)"

definition ex_weights :: "(string \<times> tensor_id) list option hook" where
  "ex_weights w = (Inr (Some [(''W'', ''rnn/kernel:0'')]), w)"

definition ex_rewriter :: "string \<Rightarrow> handler list \<Rightarrow> rewriter" where
  "ex_rewriter unittype handlers =
     base_rewriter\<lparr>find_cell := find_cell_by_match ex_env unittype,
                   get_weight_and_bias := ex_weights,
                   state_variable_handlers := Some handlers\<rparr>"

definition ex_state :: "tensor_id list \<Rightarrow> rewriter_state" where
  "ex_state scan_values =
     \<lparr>self_g = ex_graph, cx = create_context ''rnn/while/'' (ex_loop scan_values),
      state_variable_handler = None\<rparr>"

definition ex_seq_len :: node where
  "ex_seq_len = \<lparr>node_name = ''sequence_length'', node_type = ''Placeholder'',
                 node_input = [], node_output = [''sequence_length:0''], node_attr = []\<rparr>"

text \<open>
  The state after a successful \<^verbatim>\<open>need_rewrite\<close> of the loop over the scan input \<open>x:0\<close>,
  with or without a sequence-length node.
\<close>

definition ex_parsed_state :: "node option \<Rightarrow> rewriter_state" where
  "ex_parsed_state seq_len =
     (ex_state [''x:0''])
       \<lparr>cx := (cx (ex_state [''x:0'']))
                \<lparr>onnx_input_ids := [(''X'', ''x:0'')], seq_len_node := seq_len\<rparr>\<rparr>"

text \<open>The run-time shape \<open>[T, 2, 3]\<close> of \<open>x:0\<close>.\<close>

definition ex_runtime_shape :: "nat \<Rightarrow> tensor_id \<Rightarrow> nat list option" where
  "ex_runtime_shape T i = (if i = ''x:0'' then Some [T, 2, 3] else None)"

text \<open>
  A graph in which the fused node has been created, with the shape \<open>[10, 1, 2, 4]\<close> of
  its first output, and a consumer of the exit of the scan output.
\<close>

definition ex_rnn :: node where
  "ex_rnn = \<lparr>node_name = ''LSTM__7'', node_type = ''LSTM'',
             node_input = [''x:0'', ''W:0'', ''R:0'', ''B:0'', ''Cast__6:0''],
             node_output = [''LSTM__7:0'', ''LSTM__7:1'', ''LSTM__7:2''], node_attr = []\<rparr>"

definition ex_consumer :: node where
  "ex_consumer = \<lparr>node_name = ''rnn/transpose'', node_type = ''Transpose'',
                  node_input = [''rnn/exit:0''], node_output = [''rnn/transpose:0''],
                  node_attr = [(''perm'', AInts [1, 0, 2])]\<rparr>"

definition ex_rewritten_state :: rewriter_state where
  "ex_rewritten_state =
     \<lparr>self_g = \<lparr>nodes = [ex_consumer, ex_rnn],
                 shapes = (\<lambda>i. if i = ''LSTM__7:0'' then Some [10, 1, 2, 4] else None),
                 dtypes = (\<lambda>i. if i = ''LSTM__7:0'' then Some TensorProto_FLOAT else None),
                 next_name = 8\<rparr>,
      cx = (create_context ''rnn/while/'' (ex_loop [''x:0'']))\<lparr>rnn_node := Some ex_rnn\<rparr>,
      state_variable_handler = None\<rparr>"

section \<open>The nodes that are made\<close>

text \<open>
  The node that \<open>make_node\<close> makes when the counter of the graph is \<open>k\<close>, and the
  identifier of its output.
\<close>

definition new_node ::
  "string \<Rightarrow> nat \<Rightarrow> tensor_id list \<Rightarrow> (string \<times> attr_val) list \<Rightarrow> node" where
  "new_node op_name k ins at =
     \<lparr>node_name = make_name op_name k, node_type = op_name, node_input = ins,
      node_output = [port_name (make_name op_name k) 0], node_attr = at\<rparr>"

definition out_id :: "string \<Rightarrow> nat \<Rightarrow> tensor_id" where
  "out_id op_name k = port_name (make_name op_name k) 0"

text \<open>
  The seven nodes of a synthesized sequence length over the input \<open>x\<close>, in the order of
  their creation, the first of them made at counter \<open>k\<close>: the shape of \<open>x\<close>, its cast to
  \<^verbatim>\<open>FLOAT\<close>, the slice \<open>[1:2]\<close> for the batch size, its cast to \<^verbatim>\<open>INT64\<close>, the slice
  \<open>[0:1]\<close> for the time steps, the tile, and its cast to \<^verbatim>\<open>INT32\<close>.
\<close>

definition seq_len_nodes :: "tensor_id \<Rightarrow> nat \<Rightarrow> node list" where
  "seq_len_nodes x k =
     [new_node ''Shape'' k [x] [],
      new_node ''Cast'' (k + 1) [out_id ''Shape'' k] [(''to'', AInt TensorProto_FLOAT)],
      new_node ''Slice'' (k + 2) [out_id ''Cast'' (k + 1)]
        [(''starts'', AInts [1]), (''ends'', AInts [2]), (''axes'', AInts [0])],
      new_node ''Cast'' (k + 3) [out_id ''Slice'' (k + 2)] [(''to'', AInt TensorProto_INT64)],
      new_node ''Slice'' (k + 4) [out_id ''Cast'' (k + 1)]
        [(''starts'', AInts [0]), (''ends'', AInts [1]), (''axes'', AInts [0])],
      new_node ''Tile'' (k + 5) [out_id ''Slice'' (k + 4), out_id ''Cast'' (k + 3)] [],
      new_node ''Cast'' (k + 6) [out_id ''Tile'' (k + 5)] [(''to'', AInt TensorProto_INT32)]]"

section \<open>Properties\<close>

subsection \<open>Frame rules\<close>

lemma preserves_and_then:
  assumes "preserves p m" and "\<And>a. preserves p (f a)"
  shows "preserves p (and_then m f)"
  using assms unfolding preserves_def and_then_def
  by (auto split: prod.splits sum.splits) (metis snd_conv)+

lemma preserves_return_value: "preserves p (return_value a)"
  by (simp add: preserves_def return_value_def)

lemma preserves_read_state: "preserves p (read_state f)"
  by (simp add: preserves_def read_state_def)

lemma preserves_result_of: "preserves p (result_of f)"
  by (simp add: preserves_def result_of_def)

lemma preserves_set_context:
  assumes "\<And>st. p (st\<lparr>cx := f (cx st)\<rparr>) = p st"
  shows "preserves p (set_context f)"
  using assms by (simp add: preserves_def set_context_def)

lemma preserves_run_finders:
  assumes "\<forall>entry \<in> set handler. preserves p (run_hook (fst (snd entry)))"
    and "\<And>st f. p (st\<lparr>cx := (cx st)\<lparr>state_variables := f\<rparr>\<rparr>) = p st"
  shows "p (snd (run_finders handler st)) = p st"
  using assms(1)
proof (induction handler arbitrary: st)
  case Nil
  then show ?case by simp
next
  case (Cons entry rest)
  obtain var_name funcs where e: "entry = (var_name, funcs)" by (cases entry)
  obtain r st' where h: "run_hook (fst funcs) st = (r, st')" by (cases "run_hook (fst funcs) st")
  from Cons.prems e have "preserves p (run_hook (fst funcs))" by simp
  with h have keep: "p st' = p st" unfolding preserves_def by (metis snd_conv)
  from Cons.prems have rest: "\<forall>entry \<in> set rest. preserves p (run_hook (fst (snd entry)))" by simp
  show ?case
  proof (cases r)
    case (Inl err)
    with e h keep show ?thesis by simp
  next
    case (Inr found)
    show ?thesis
    proof (cases found)
      case None
      with Inr e h keep show ?thesis by simp
    next
      case (Some sv)
      with Inr e h keep Cons.IH [OF rest] assms(2) show ?thesis by simp
    qed
  qed
qed

lemma preserves_run_handlers:
  assumes "finders_preserve p handlers"
    and "\<And>st f. p (st\<lparr>cx := (cx st)\<lparr>state_variables := f\<rparr>\<rparr>) = p st"
    and "\<And>st h. p (st\<lparr>state_variable_handler := h\<rparr>) = p st"
  shows "p (snd (run_handlers handlers st)) = p st"
  using assms(1)
proof (induction handlers arbitrary: st)
  case Nil
  then show ?case by simp
next
  case (Cons handler rest)
  from Cons.prems have here: "\<forall>entry \<in> set handler. preserves p (run_hook (fst (snd entry)))"
    and later: "finders_preserve p rest"
    by (simp_all add: finders_preserve_def)
  obtain r st' where h: "run_finders handler st = (r, st')" by (cases "run_finders handler st")
  with preserves_run_finders [OF here assms(2), of st] have keep: "p st' = p st" by simp
  show ?case
  proof (cases r)
    case (Inl err)
    with h keep show ?thesis by simp
  next
    case (Inr can_handle)
    with h keep Cons.IH [OF later, of st'] assms(3) show ?thesis by simp
  qed
qed

lemma preserves_get_state_variables:
  assumes "case state_variable_handlers rw of None \<Rightarrow> True | Some hs \<Rightarrow> finders_preserve p hs"
    and "\<And>st f. p (st\<lparr>cx := (cx st)\<lparr>state_variables := f\<rparr>\<rparr>) = p st"
    and "\<And>st h. p (st\<lparr>state_variable_handler := h\<rparr>) = p st"
  shows "preserves p (get_state_variables rw)"
  using assms(1) preserves_run_handlers [OF _ assms(2,3)]
  by (auto simp: preserves_def get_state_variables_def split: option.splits)

lemma preserves_parse_unit_rnn_graph:
  assumes "preserves self_g (run_hook (find_cell rw))"
    and "preserves self_g (run_hook (get_weight_and_bias rw))"
    and "preserves self_g (run_hook (parse_attributes rw))"
    and "case state_variable_handlers rw of None \<Rightarrow> True | Some hs \<Rightarrow> finders_preserve self_g hs"
  shows "preserves self_g (parse_unit_rnn ev rw)"
  unfolding parse_unit_rnn_def
  by (intro preserves_and_then preserves_return_value preserves_read_state preserves_result_of
        preserves_set_context preserves_get_state_variables assms
      | simp split: option.splits | intro conjI impI allI)+

lemma preserves_need_rewrite_graph:
  assumes "feasibility_preserves self_g ev rw"
  shows "preserves self_g (need_rewrite ev rw)"
proof -
  from assms have pl: "preserves self_g (run_parse_rnn_loop ev)"
    and fc: "preserves self_g (run_hook (find_cell rw))"
    and wb: "preserves self_g (run_hook (get_weight_and_bias rw))"
    and pa: "preserves self_g (run_hook (parse_attributes rw))"
    and iv: "preserves self_g (run_hook (is_valid rw))"
    and sv: "case state_variable_handlers rw of None \<Rightarrow> True | Some hs \<Rightarrow> finders_preserve self_g hs"
    by (simp_all add: feasibility_preserves_def)
  note pu = preserves_parse_unit_rnn_graph [OF fc wb pa sv, of ev]
  show ?thesis
    unfolding need_rewrite_def
    by (intro preserves_and_then preserves_return_value preserves_set_context pl pu iv
        | simp | intro conjI impI allI)+
qed

subsection \<open>The example loop\<close>

lemmas ex_defs = ex_env_def ex_rewriter_def ex_state_def ex_loop_def ex_graph_def ex_add_def
  ex_select_def ex_var_def ex_var_select_def finder_of_def connector_noop_def ex_weights_def
  base_rewriter_def returns_true_def not_implemented_def create_context_def

lemmas run_defs = need_rewrite_def parse_unit_rnn_def and_then_def return_value_def
  set_context_def run_hook_def read_state_def result_of_def run_parse_rnn_loop_def
  get_state_variables_def find_sequence_length_node_def get_node_by_output_def
  find_cell_by_match_def match_cell_def get_op_def

lemma ex_feasibility_preserves:
  "feasibility_preserves p ex_env
     (ex_rewriter unittype [[(''h'', (finder_of found, connector_noop))]])"
  by (simp add: feasibility_preserves_def finders_preserve_def preserves_def ex_defs
      run_hook_def run_parse_rnn_loop_def find_cell_by_match_def)

subsection \<open>\<^verbatim>\<open>need_rewrite\<close> leaves the graph alone\<close>

text \<open>
  C2, as stated, fails in its last clause: the context is not the only object that
  \<^verbatim>\<open>need_rewrite\<close> writes. \<^verbatim>\<open>get_state_variables\<close> stores the selected handler in the
  field \<^verbatim>\<open>self.state_variable_handler\<close> of the rewriter: on the example loop the field is
  \<^verbatim>\<open>None\<close> before the call and the handler after it.
\<close>

theorem need_rewrite_writes_handler_field:
  "state_variable_handler (ex_state [''x:0'']) = None \<and>
   state_variable_handler (snd (need_rewrite ex_env
     (ex_rewriter ''lstm'' [[(''h'', (finder_of (Some ex_var), connector_noop))]])
     (ex_state [''x:0'']))) =
     Some [(''h'', (finder_of (Some ex_var), connector_noop))]"
  by (simp add: ex_defs run_defs)

text \<open>
  C2, amended. When the collaborators that \<^verbatim>\<open>need_rewrite\<close> calls (the loop parser,
  \<^verbatim>\<open>find_cell\<close>, \<^verbatim>\<open>get_weight_and_bias\<close>, \<^verbatim>\<open>parse_attributes\<close>, \<^verbatim>\<open>is_valid\<close> and the
  finders) read the graph only, \<^verbatim>\<open>need_rewrite\<close> performs no mutation of the graph: the
  graph after the call, with its nodes, their inputs, the shapes and the dtypes, is the
  graph before the call, whether the call returns true, returns false or raises. What
  the call writes is the context and the field \<^verbatim>\<open>self.state_variable_handler\<close> of the
  rewriter, and nothing else.
\<close>

theorem need_rewrite_writes_context_and_handler:
  assumes "feasibility_preserves self_g ev rw"
  shows "self_g (snd (need_rewrite ev rw st)) = self_g st \<and>
         snd (need_rewrite ev rw st) =
           st\<lparr>cx := cx (snd (need_rewrite ev rw st)),
              state_variable_handler := state_variable_handler (snd (need_rewrite ev rw st))\<rparr>"
proof -
  from preserves_need_rewrite_graph [OF assms]
  have same: "self_g (snd (need_rewrite ev rw st)) = self_g st"
    by (simp add: preserves_def)
  then show ?thesis
    by (cases "snd (need_rewrite ev rw st)", cases st) simp
qed

theorem need_rewrite_writes_context_and_handler_witness:
  "feasibility_preserves self_g ex_env
     (ex_rewriter ''lstm'' [[(''h'', (finder_of (Some ex_var), connector_noop))]]) \<and>
   fst (need_rewrite ex_env
     (ex_rewriter ''lstm'' [[(''h'', (finder_of (Some ex_var), connector_noop))]])
     (ex_state [''x:0''])) = Inr True \<and>
   self_g (snd (need_rewrite ex_env
     (ex_rewriter ''lstm'' [[(''h'', (finder_of (Some ex_var), connector_noop))]])
     (ex_state [''x:0'']))) = ex_graph"
proof -
  have runs: "fst (need_rewrite ex_env
     (ex_rewriter ''lstm'' [[(''h'', (finder_of (Some ex_var), connector_noop))]])
     (ex_state [''x:0''])) = Inr True"
    by (simp add: ex_defs run_defs)
  have start: "self_g (ex_state [''x:0'']) = ex_graph"
    by (simp add: ex_state_def)
  have reads: "feasibility_preserves self_g ex_env
     (ex_rewriter ''lstm'' [[(''h'', (finder_of (Some ex_var), connector_noop))]])"
    by (rule ex_feasibility_preserves)
  from need_rewrite_writes_context_and_handler [OF reads, of "ex_state [''x:0'']"]
  have "self_g (snd (need_rewrite ex_env
     (ex_rewriter ''lstm'' [[(''h'', (finder_of (Some ex_var), connector_noop))]])
     (ex_state [''x:0'']))) = self_g (ex_state [''x:0''])"
    by (rule conjunct1)
  with runs start reads show ?thesis by simp
qed

subsection \<open>Cell matching\<close>

lemma parse_unit_rnn_no_cell:
  assumes "find_cell rw = find_cell_by_match ev unittype"
    and "match_cell ev (self_g st) (cx st) unittype = None"
  shows "parse_unit_rnn ev rw st = (Inr False, st)"
  using assms
  by (simp add: parse_unit_rnn_def and_then_def run_hook_def find_cell_by_match_def
      return_value_def)

text \<open>
  C1. Cell matching succeeds only when the structural matcher returns exactly one
  binding. Let the loop parser leave the graph \<open>gr\<close> and the loop properties \<open>lp\<close>, and
  let the matcher, run for the unit type on the nodes of the loop body, return a number
  of results other than one (none, or two or more). Then \<^verbatim>\<open>_match_cell\<close> returns
  \<^verbatim>\<open>None\<close>, \<^verbatim>\<open>need_rewrite\<close> of a rewriter whose \<^verbatim>\<open>find_cell\<close> is \<^verbatim>\<open>_match_cell\<close> returns
  false, and \<^verbatim>\<open>context.cell_match\<close> is what it was before the call: unset for a new
  context, and never one of the ambiguous matches.
\<close>

theorem need_rewrite_needs_one_cell_match:
  assumes parser: "parse_rnn_loop ev (self_g st) (loop_properties (cx st))
                     (Some (get_rnn_scope_name ev (while_context_scope (cx st))))
                     (while_context_scope (cx st)) = (parsed, gr, lp)"
    and body: "body_graph_ops =
                 find_subgraph ev (set (map tvi_id (state_inputs lp @ scan_inputs lp)))
                   (set (map tvi_id (state_outputs lp @ scan_outputs lp))) gr True"
    and matches: "length (match_cell_ops ev unittype gr body_graph_ops) \<noteq> 1"
    and finder: "find_cell rw = find_cell_by_match ev unittype"
  shows "match_cell ev gr ((cx st)\<lparr>loop_properties := lp\<rparr>) unittype = None \<and>
         fst (need_rewrite ev rw st) = Inr False \<and>
         cell_match (cx (snd (need_rewrite ev rw st))) = cell_match (cx st)"
proof -
  have none: "match_cell ev gr c unittype = None" if "loop_properties c = lp" for c
    using that body matches by (simp add: match_cell_def image_Un)
  let ?st1 = "st\<lparr>cx := (cx st)\<lparr>rnn_scope := Some (get_rnn_scope_name ev (while_context_scope (cx st)))\<rparr>\<rparr>"
  let ?st2 = "?st1\<lparr>self_g := gr, cx := (cx ?st1)\<lparr>loop_properties := lp\<rparr>\<rparr>"
  have parse: "run_parse_rnn_loop ev ?st1 = (Inr parsed, ?st2)"
    using parser by (simp add: run_parse_rnn_loop_def)
  have unit: "parse_unit_rnn ev rw ?st2 = (Inr False, ?st2)"
    by (rule parse_unit_rnn_no_cell [OF finder]) (simp add: none)
  have run: "need_rewrite ev rw st = (Inr False, ?st2)"
    using parse unit
    by (simp add: need_rewrite_def and_then_def set_context_def return_value_def)
  show ?thesis
    using run none [of "(cx st)\<lparr>loop_properties := lp\<rparr>"] by simp
qed

theorem need_rewrite_needs_one_cell_match_witness:
  "length (match_cell_ops ex_env ''gru'' ex_graph [ex_add, ex_select]) = 2 \<and>
   match_cell ex_env ex_graph (cx (ex_state [''x:0''])) ''gru'' = None \<and>
   fst (need_rewrite ex_env
     (ex_rewriter ''gru'' [[(''h'', (finder_of (Some ex_var), connector_noop))]])
     (ex_state [''x:0''])) = Inr False \<and>
   cell_match (cx (snd (need_rewrite ex_env
     (ex_rewriter ''gru'' [[(''h'', (finder_of (Some ex_var), connector_noop))]])
     (ex_state [''x:0''])))) = None"
proof -
  let ?rw = "ex_rewriter ''gru'' [[(''h'', (finder_of (Some ex_var), connector_noop))]]"
  let ?st = "ex_state [''x:0'']"
  let ?lp = "ex_loop [''x:0'']"
  have parser: "parse_rnn_loop ex_env (self_g ?st) (loop_properties (cx ?st))
                  (Some (get_rnn_scope_name ex_env (while_context_scope (cx ?st))))
                  (while_context_scope (cx ?st)) = (True, ex_graph, ?lp)"
    by (simp add: ex_env_def ex_state_def create_context_def)
  have body: "[ex_add, ex_select] =
      find_subgraph ex_env (set (map tvi_id (state_inputs ?lp @ scan_inputs ?lp)))
        (set (map tvi_id (state_outputs ?lp @ scan_outputs ?lp))) ex_graph True"
    by (simp add: ex_env_def ex_graph_def)
  have two: "length (match_cell_ops ex_env ''gru'' ex_graph [ex_add, ex_select]) = 2"
    by (simp add: ex_env_def)
  then have matches: "length (match_cell_ops ex_env ''gru'' ex_graph [ex_add, ex_select]) \<noteq> 1"
    by simp
  have finder: "find_cell ?rw = find_cell_by_match ex_env ''gru''"
    by (simp add: ex_rewriter_def)
  have same: "(cx ?st)\<lparr>loop_properties := ?lp\<rparr> = cx ?st"
    by (simp add: ex_state_def create_context_def)
  have unset: "cell_match (cx ?st) = None"
    by (simp add: ex_state_def create_context_def)
  from need_rewrite_needs_one_cell_match [OF parser body matches finder] two same unset
  show ?thesis by simp
qed

subsection \<open>The sequence-length node\<close>

text \<open>
  C3. Take the first state variable of the context and the node that produces its
  next-iteration input. When that node is a select operator and the sequence-length
  pattern does not match at it, \<^verbatim>\<open>find_sequence_length_node\<close> raises the
  \<^verbatim>\<open>RuntimeError\<close>; when that node is not a select operator, it returns \<^verbatim>\<open>None\<close>, the
  absent result, and raises nothing.
\<close>

theorem find_sequence_length_node_select:
  assumes "state_variables c = (var_name, state_variable) # others"
    and "get_node_by_output gr (tvi_id (next_iteration_input state_variable)) = Some producer"
  shows "(is_tf_select_op ev producer \<and> match_seq_len ev gr producer = None \<longrightarrow>
            find_sequence_length_node ev gr c =
              Inl (RuntimeError ''failed to find sequence length.'')) \<and>
         (\<not> is_tf_select_op ev producer \<longrightarrow> find_sequence_length_node ev gr c = Inr None)"
  using assms by (simp add: find_sequence_length_node_def)

theorem find_sequence_length_node_select_witness:
  "find_sequence_length_node ex_env ex_graph
     ((cx (ex_state [''x:0'']))\<lparr>state_variables := [(''h'', ex_var_select)]\<rparr>) =
     Inl (RuntimeError ''failed to find sequence length.'') \<and>
   find_sequence_length_node ex_env ex_graph
     ((cx (ex_state [''x:0'']))\<lparr>state_variables := [(''h'', ex_var)]\<rparr>) = Inr None"
proof -
  let ?c = "\<lambda>v. (cx (ex_state [''x:0'']))\<lparr>state_variables := [(''h'', v)]\<rparr>"
  have s1: "state_variables (?c ex_var_select) = (''h'', ex_var_select) # []"
    and s2: "state_variables (?c ex_var) = (''h'', ex_var) # []"
    by simp_all
  have p1: "get_node_by_output ex_graph (tvi_id (next_iteration_input ex_var_select)) = Some ex_select"
    by (simp add: get_node_by_output_def ex_graph_def ex_var_select_def ex_select_def ex_add_def)
  have p2: "get_node_by_output ex_graph (tvi_id (next_iteration_input ex_var)) = Some ex_add"
    by (simp add: get_node_by_output_def ex_graph_def ex_var_def ex_select_def ex_add_def)
  have sel: "is_tf_select_op ex_env ex_select \<and> match_seq_len ex_env ex_graph ex_select = None"
    by (simp add: ex_env_def ex_select_def)
  have nosel: "\<not> is_tf_select_op ex_env ex_add"
    by (simp add: ex_env_def ex_add_def)
  from find_sequence_length_node_select [OF s1 p1, of ex_env]
       find_sequence_length_node_select [OF s2 p2, of ex_env] sel nosel
  show ?thesis by simp
qed

subsection \<open>The single scan input\<close>




lemma scan_X_updates [simp]:
  "scan_X (st\<lparr>cx := (cx st)\<lparr>cell_match := m\<rparr>\<rparr>) = scan_X st"
  "scan_X (st\<lparr>cx := (cx st)\<lparr>weights := ws\<rparr>\<rparr>) = scan_X st"
  "scan_X (st\<lparr>cx := (cx st)\<lparr>seq_len_node := sl\<rparr>\<rparr>) = scan_X st"
  "scan_X (st\<lparr>cx := (cx st)\<lparr>state_variables := svs\<rparr>\<rparr>) = scan_X st"
  "scan_X (st\<lparr>cx := (cx st)\<lparr>rnn_scope := sc\<rparr>\<rparr>) = scan_X st"
  "scan_X (st\<lparr>state_variable_handler := h\<rparr>) = scan_X st"
  by (simp_all add: scan_X_def)





lemma never_raise [simp]:
  "fst (set_context f s) \<noteq> Inl e"
  "fst (return_value a s) \<noteq> Inl e"
  "fst (read_state g s) \<noteq> Inl e"
  "fst (run_parse_rnn_loop ev s) \<noteq> Inl e"
  by (simp_all add: set_context_def return_value_def read_state_def run_parse_rnn_loop_def
      split: prod.split)






subsection \<open>Selecting a handler\<close>

lemma run_finders_append:
  assumes "run_finders resolved st = (Inr True, st1)"
  shows "run_finders (resolved @ rest) st = run_finders rest st1"
  using assms
proof (induction resolved arbitrary: st)
  case Nil
  then show ?case by simp
next
  case (Cons entry resolved)
  obtain var_name funcs where e: "entry = (var_name, funcs)" by (cases entry)
  from Cons.prems e show ?case
    by (auto split: prod.splits sum.splits option.splits intro: Cons.IH)
qed

lemma run_finders_fails:
  assumes "run_finders resolved st = (Inr True, st1)"
    and "run_hook (fst funcs) st1 = (Inr None, st2)"
  shows "run_finders (resolved @ (var_name, funcs) # unreached) st = (Inr False, st2)"
  using run_finders_append [OF assms(1)] assms(2) by simp

lemma run_handlers_append:
  assumes "run_handlers earlier st = (Inr False, st1)"
  shows "run_handlers (earlier @ rest) st = run_handlers rest st1"
  using assms
proof (induction earlier arbitrary: st)
  case Nil
  then show ?case by simp
next
  case (Cons handler earlier)
  from Cons.prems show ?case
    by (auto split: prod.splits sum.splits if_splits intro: Cons.IH)
qed

lemma finders_all_find_run:
  "finders_all_find handler st st' \<Longrightarrow> run_finders handler st = (Inr True, st')"
  by (induction rule: finders_all_find.induct) simp_all

lemma a_finder_fails_run:
  "a_finder_fails handler st st' \<Longrightarrow> run_finders handler st = (Inr False, st')"
proof (induction rule: a_finder_fails.induct)
  case (finder_fails resolved st st1 funcs st2 var_name unreached)
  from finders_all_find_run [OF finder_fails(1)] finder_fails(2)
  show ?case by (rule run_finders_fails)
qed

lemma each_has_failing_finder_run:
  "each_has_failing_finder handlers st st' \<Longrightarrow> run_handlers handlers st = (Inr False, st')"
proof (induction rule: each_has_failing_finder.induct)
  case (no_handler st)
  show ?case by simp
next
  case (handler_fails handler st st1 rest st2)
  from a_finder_fails_run [OF handler_fails(1)] handler_fails(3)
  show ?case by simp
qed

text \<open>
  C5, as stated, fails in where the selected handler goes: the context gets no handler.
  In the scenario of two handlers, the first for \<open>h\<close> and \<open>c\<close> where the finder of \<open>c\<close>
  fails and the second for \<open>h\<close> alone, \<^verbatim>\<open>get_state_variables\<close> leaves the context as it
  was but for \<^verbatim>\<open>state_variables\<close>, and the second handler is in the field
  \<^verbatim>\<open>self.state_variable_handler\<close> of the rewriter, which was \<^verbatim>\<open>None\<close>.
\<close>

theorem get_state_variables_handler_on_rewriter:
  "state_variable_handler (ex_state [''x:0'']) = None \<and>
   state_variable_handler (snd (get_state_variables
     (ex_rewriter ''lstm''
        [[(''h'', (finder_of (Some ex_var), connector_noop)),
          (''c'', (finder_of None, connector_noop))],
         [(''h'', (finder_of (Some ex_var_select), connector_noop))]])
     (ex_state [''x:0'']))) =
     Some [(''h'', (finder_of (Some ex_var_select), connector_noop))] \<and>
   cx (snd (get_state_variables
     (ex_rewriter ''lstm''
        [[(''h'', (finder_of (Some ex_var), connector_noop)),
          (''c'', (finder_of None, connector_noop))],
         [(''h'', (finder_of (Some ex_var_select), connector_noop))]])
     (ex_state [''x:0'']))) =
     (cx (ex_state [''x:0'']))\<lparr>state_variables := [(''h'', ex_var_select)]\<rparr>"
  by (simp add: get_state_variables_def ex_rewriter_def run_hook_def finder_of_def
      ex_state_def create_context_def)

text \<open>
  C5, amended. The selection among the handlers is first-fully-resolving-wins. Let each
  handler before \<open>handler\<close> in the list have a variable whose finder fails, and let all
  finders of \<open>handler\<close> find their variable, leaving the state \<open>st2\<close>. Then
  \<^verbatim>\<open>get_state_variables\<close> returns true and sets the field \<^verbatim>\<open>self.state_variable_handler\<close>
  of the rewriter (the context has no such field) to exactly \<open>handler\<close>, not to a merge
  of several handlers; the state is otherwise \<open>st2\<close>, so the handlers after \<open>handler\<close>
  have no part in the result: none of their finders is run.
\<close>

theorem first_fully_resolving_handler_selected:
  assumes "state_variable_handlers rw = Some (earlier @ handler # later)"
    and "each_has_failing_finder earlier st st1"
    and "finders_all_find handler st1 st2"
  shows "get_state_variables rw st =
           (Inr True, st2\<lparr>state_variable_handler := Some handler\<rparr>)"
proof -
  have passed: "run_handlers earlier st = (Inr False, st1)"
    by (rule each_has_failing_finder_run [OF assms(2)])
  have resolved: "run_finders handler st1 = (Inr True, st2)"
    by (rule finders_all_find_run [OF assms(3)])
  from run_handlers_append [OF passed, of "handler # later"] resolved
  have "run_handlers (earlier @ handler # later) st =
          (Inr True, st2\<lparr>state_variable_handler := Some handler\<rparr>)"
    by simp
  with assms(1) show ?thesis by (simp add: get_state_variables_def)
qed

theorem first_fully_resolving_handler_selected_witness:
  "get_state_variables
     (ex_rewriter ''lstm''
        [[(''h'', (finder_of (Some ex_var), connector_noop)),
          (''c'', (finder_of None, connector_noop))],
         [(''h'', (finder_of (Some ex_var_select), connector_noop))],
         [(''h'', (not_implemented, connector_noop))]])
     (ex_state [''x:0'']) =
     (Inr True,
      (ex_state [''x:0''])
        \<lparr>cx := (cx (ex_state [''x:0'']))\<lparr>state_variables := [(''h'', ex_var_select)]\<rparr>,
         state_variable_handler :=
           Some [(''h'', (finder_of (Some ex_var_select), connector_noop))]\<rparr>)"
proof -
  let ?found = "(finder_of (Some ex_var), connector_noop)"
  let ?missing = "(finder_of None, connector_noop)"
  let ?h2 = "[(''h'', (finder_of (Some ex_var_select), connector_noop))]"
  let ?h3 = "[(''h'', (not_implemented :: state_variable option hook, connector_noop))]"
  let ?st = "ex_state [''x:0'']"
  let ?st1 = "?st\<lparr>cx := (cx ?st)\<lparr>state_variables := [(''h'', ex_var)]\<rparr>\<rparr>"
  let ?st2 = "?st\<lparr>cx := (cx ?st)\<lparr>state_variables := [(''h'', ex_var_select)]\<rparr>\<rparr>"
  have handlers: "state_variable_handlers
      (ex_rewriter ''lstm'' [[(''h'', ?found), (''c'', ?missing)], ?h2, ?h3]) =
      Some ([[(''h'', ?found)] @ (''c'', ?missing) # []] @ ?h2 # [?h3])"
    by (simp add: ex_rewriter_def)
  have h_found: "run_hook (fst ?found) ?st = (Inr (Some ex_var), ?st)"
    by (simp add: run_hook_def finder_of_def)
  have stored: "?st\<lparr>cx := (cx ?st)\<lparr>state_variables :=
                   dict_set (state_variables (cx ?st)) ''h'' ex_var\<rparr>\<rparr> = ?st1"
    by (simp add: ex_state_def create_context_def)
  have "finders_all_find [(''h'', ?found)] ?st ?st1"
    using finder_finds [OF h_found no_finder, where var_name = "''h''"] stored by simp
  moreover have "run_hook (fst ?missing) ?st1 = (Inr None, ?st1)"
    by (simp add: run_hook_def finder_of_def)
  ultimately have "a_finder_fails ([(''h'', ?found)] @ (''c'', ?missing) # []) ?st ?st1"
    by (rule finder_fails)
  then have earlier: "each_has_failing_finder [[(''h'', ?found)] @ (''c'', ?missing) # []] ?st ?st1"
    by (rule handler_fails) (rule no_handler)
  have h2_found: "run_hook (fst (finder_of (Some ex_var_select), connector_noop)) ?st1 =
      (Inr (Some ex_var_select), ?st1)"
    by (simp add: run_hook_def finder_of_def)
  have stored2: "?st1\<lparr>cx := (cx ?st1)\<lparr>state_variables :=
                   dict_set (state_variables (cx ?st1)) ''h'' ex_var_select\<rparr>\<rparr> = ?st2"
    by (simp add: ex_state_def create_context_def)
  have selected: "finders_all_find ?h2 ?st1 ?st2"
    using finder_finds [OF h2_found no_finder, where var_name = "''h''"] stored2 by simp
  from first_fully_resolving_handler_selected [OF handlers earlier selected]
  show ?thesis by simp
qed

subsection \<open>What a failed handler leaves behind\<close>

lemma keys_dict_set: "keys (dict_set d k v) = insert k (keys d)"
proof (induction d)
  case Nil
  show ?case by (simp add: keys_def)
next
  case (Cons entry d)
  obtain k' v' where e: "entry = (k', v')" by (cases entry)
  from Cons e show ?case
    by (cases "k' = k") (simp_all add: keys_def insert_commute)
qed

lemma preservesD: "preserves p m \<Longrightarrow> m st = (r, st') \<Longrightarrow> p st' = p st"
  unfolding preserves_def by (metis snd_conv)

lemma run_finders_keys:
  assumes "\<forall>entry \<in> set handler. preserves vars_of (run_hook (fst (snd entry)))"
    and "run_finders handler st = (r, st')"
  shows "keys (vars_of st) \<subseteq> keys (vars_of st') \<and>
         (r = Inr True \<longrightarrow> keys handler \<subseteq> keys (vars_of st'))"
  using assms
proof (induction handler arbitrary: st)
  case Nil
  then show ?case by (simp add: keys_def)
next
  case (Cons entry rest)
  obtain var_name funcs where e: "entry = (var_name, funcs)" by (cases entry)
  obtain r1 st1 where h: "run_hook (fst funcs) st = (r1, st1)" by (cases "run_hook (fst funcs) st")
  from Cons.prems(1) e have "preserves vars_of (run_hook (fst funcs))" by simp
  from preservesD [OF this h] have keep: "vars_of st1 = vars_of st" .
  from Cons.prems(1) have rest: "\<forall>entry \<in> set rest. preserves vars_of (run_hook (fst (snd entry)))"
    by simp
  show ?case
  proof (cases r1)
    case (Inl err)
    with e h keep Cons.prems(2) show ?thesis by auto
  next
    case (Inr found)
    show ?thesis
    proof (cases found)
      case None
      with Inr e h keep Cons.prems(2) show ?thesis by auto
    next
      case (Some sv)
      let ?st2 = "st1\<lparr>cx := (cx st1)\<lparr>state_variables :=
                     dict_set (state_variables (cx st1)) var_name sv\<rparr>\<rparr>"
      from Some Inr e h Cons.prems(2) have run: "run_finders rest ?st2 = (r, st')" by simp
      have k2: "keys (vars_of ?st2) = insert var_name (keys (vars_of st))"
        using keep by (simp add: vars_of_def keys_dict_set)
      from Cons.IH [OF rest run] k2 e show ?thesis
        by (auto simp: keys_def)
    qed
  qed
qed

lemma run_handlers_keys:
  assumes "finders_preserve vars_of handlers"
    and "run_handlers handlers st = (r, st')"
  shows "keys (vars_of st) \<subseteq> keys (vars_of st') \<and>
         (r = Inr True \<longrightarrow>
            (\<exists>selected. state_variable_handler st' = Some selected \<and> selected \<in> set handlers \<and>
               keys selected \<subseteq> keys (vars_of st')))"
  using assms
proof (induction handlers arbitrary: st)
  case Nil
  then show ?case by auto
next
  case (Cons handler rest)
  from Cons.prems(1) have here: "\<forall>entry \<in> set handler. preserves vars_of (run_hook (fst (snd entry)))"
    and later: "finders_preserve vars_of rest"
    by (simp_all add: finders_preserve_def)
  obtain r1 st1 where h: "run_finders handler st = (r1, st1)" by (cases "run_finders handler st")
  note k1 = run_finders_keys [OF here h]
  show ?case
  proof (cases r1)
    case (Inl err)
    with h k1 Cons.prems(2) show ?thesis by auto
  next
    case (Inr can_handle)
    show ?thesis
    proof (cases can_handle)
      case True
      with Inr h Cons.prems(2) have "r = Inr True"
        and "st' = st1\<lparr>state_variable_handler := Some handler\<rparr>" by auto
      with k1 Inr True show ?thesis by (auto simp: vars_of_def)
    next
      case False
      with Inr h Cons.prems(2) have "run_handlers rest st1 = (r, st')" by simp
      from Cons.IH [OF later this] k1 show ?thesis by auto
    qed
  qed
qed


lemma dict_get_dict_set:
  "dict_get (dict_set d k v) k' = (if k' = k then Some v else dict_get d k')"
  by (induction d) auto

lemma run_finders_values:
  assumes "\<forall>entry \<in> set handler. preserves vars_of (run_hook (fst (snd entry)))"
    and "run_finders handler st = (r, st')"
    and "name \<notin> keys handler"
  shows "dict_get (vars_of st') name = dict_get (vars_of st) name"
  using assms
proof (induction handler arbitrary: st)
  case Nil
  then show ?case by simp
next
  case (Cons entry rest)
  obtain var_name funcs where e: "entry = (var_name, funcs)" by (cases entry)
  obtain r1 st1 where h: "run_hook (fst funcs) st = (r1, st1)" by (cases "run_hook (fst funcs) st")
  from Cons.prems(1) e have "preserves vars_of (run_hook (fst funcs))" by simp
  from preservesD [OF this h] have keep: "vars_of st1 = vars_of st" .
  from Cons.prems(1) have rest: "\<forall>entry \<in> set rest. preserves vars_of (run_hook (fst (snd entry)))"
    by simp
  from Cons.prems(3) e have other: "name \<noteq> var_name" and later: "name \<notin> keys rest"
    by (auto simp: keys_def)
  show ?case
  proof (cases r1)
    case (Inl err)
    with e h keep Cons.prems(2) show ?thesis by auto
  next
    case (Inr found)
    show ?thesis
    proof (cases found)
      case None
      with Inr e h keep Cons.prems(2) show ?thesis by auto
    next
      case (Some sv)
      let ?st2 = "st1\<lparr>cx := (cx st1)\<lparr>state_variables :=
                     dict_set (state_variables (cx st1)) var_name sv\<rparr>\<rparr>"
      from Some Inr e h Cons.prems(2) have run: "run_finders rest ?st2 = (r, st')" by simp
      have "dict_get (vars_of ?st2) name = dict_get (vars_of st) name"
        using keep other by (simp add: vars_of_def dict_get_dict_set)
      with Cons.IH [OF rest run later] show ?thesis by simp
    qed
  qed
qed

lemma run_handlers_values:
  assumes "finders_preserve vars_of handlers"
    and "run_handlers handlers st = (r, st')"
    and "\<forall>handler \<in> set handlers. name \<notin> keys handler"
  shows "dict_get (vars_of st') name = dict_get (vars_of st) name"
  using assms
proof (induction handlers arbitrary: st)
  case Nil
  then show ?case by auto
next
  case (Cons handler rest)
  from Cons.prems(1) have here: "\<forall>entry \<in> set handler. preserves vars_of (run_hook (fst (snd entry)))"
    and later: "finders_preserve vars_of rest"
    by (simp_all add: finders_preserve_def)
  obtain r1 st1 where h: "run_finders handler st = (r1, st1)" by (cases "run_finders handler st")
  from Cons.prems(3) have n1: "name \<notin> keys handler"
    and n2: "\<forall>handler \<in> set rest. name \<notin> keys handler" by simp_all
  note v1 = run_finders_values [OF here h n1]
  show ?case
  proof (cases r1)
    case (Inl err)
    with h v1 Cons.prems(2) show ?thesis by auto
  next
    case (Inr can_handle)
    show ?thesis
    proof (cases can_handle)
      case True
      with Inr h Cons.prems(2) have "st' = st1\<lparr>state_variable_handler := Some handler\<rparr>" by auto
      with v1 show ?thesis by (simp add: vars_of_def)
    next
      case False
      with Inr h Cons.prems(2) have "run_handlers rest st1 = (r, st')" by simp
      from Cons.IH [OF later this n2] v1 show ?thesis by simp
    qed
  qed
qed

text \<open>
  C10. \<^verbatim>\<open>context.state_variables\<close> is never cleared between handler attempts. Let the
  first handler of the list resolve the variables of \<open>resolved\<close> before the finder of
  \<open>var_name\<close> finds nothing, let a later handler succeed, and let the finders themselves
  not write \<^verbatim>\<open>context.state_variables\<close>. Then \<^verbatim>\<open>get_state_variables\<close> returns true, and
  afterwards every name of \<open>resolved\<close> is still a key of \<^verbatim>\<open>context.state_variables\<close>, with
  the value the failed handler found unless a later handler names the same variable;
  the names of the selected handler are keys too. So when the failed handler resolved a
  name that the selected handler does not have, the keys are a strict superset of the
  names of the selected handler: a merge of what both handlers found.
\<close>

theorem failed_handler_entries_remain:
  assumes handlers: "state_variable_handlers rw =
                       Some ((resolved @ (var_name, funcs) # unreached) # later)"
    and frame: "finders_preserve vars_of ((resolved @ (var_name, funcs) # unreached) # later)"
    and found: "run_finders resolved st = (Inr True, st1)"
    and fails: "run_hook (fst funcs) st1 = (Inr None, st2)"
    and succeeds: "run_handlers later st2 = (Inr True, st3)"
  shows "get_state_variables rw st = (Inr True, st3) \<and>
         keys resolved \<subseteq> keys (state_variables (cx st3)) \<and>
         (\<forall>name \<in> keys resolved. (\<forall>handler \<in> set later. name \<notin> keys handler) \<longrightarrow>
            dict_get (state_variables (cx st3)) name = dict_get (state_variables (cx st1)) name) \<and>
         (\<exists>selected. state_variable_handler st3 = Some selected \<and> selected \<in> set later \<and>
            keys selected \<subseteq> keys (state_variables (cx st3)) \<and>
            (\<not> keys resolved \<subseteq> keys selected \<longrightarrow>
               keys selected \<subset> keys (state_variables (cx st3))))"
proof -
  let ?first = "resolved @ (var_name, funcs) # unreached"
  from frame have f_first: "\<forall>entry \<in> set ?first. preserves vars_of (run_hook (fst (snd entry)))"
    and f_later: "finders_preserve vars_of later"
    by (simp_all add: finders_preserve_def)
  from f_first have f_res: "\<forall>entry \<in> set resolved. preserves vars_of (run_hook (fst (snd entry)))"
    and f_fun: "preserves vars_of (run_hook (fst funcs))"
    by simp_all
  have first: "run_finders ?first st = (Inr False, st2)"
    by (rule run_finders_fails [OF found fails])
  have run: "get_state_variables rw st = (Inr True, st3)"
    using handlers first succeeds by (simp add: get_state_variables_def)
  from run_finders_keys [OF f_res found] have k1: "keys resolved \<subseteq> keys (vars_of st1)" by simp
  from preservesD [OF f_fun fails] have v2: "vars_of st2 = vars_of st1" .
  from run_handlers_keys [OF f_later succeeds]
  obtain selected where mono: "keys (vars_of st2) \<subseteq> keys (vars_of st3)"
    and sel: "state_variable_handler st3 = Some selected" "selected \<in> set later"
      "keys selected \<subseteq> keys (vars_of st3)"
    by auto
  from k1 v2 mono have remain: "keys resolved \<subseteq> keys (vars_of st3)" by auto
  have kept: "dict_get (vars_of st3) name = dict_get (vars_of st1) name"
    if "\<forall>handler \<in> set later. name \<notin> keys handler" for name
    using run_handlers_values [OF f_later succeeds that] v2 by simp
  have strict: "keys selected \<subset> keys (vars_of st3)" if "\<not> keys resolved \<subseteq> keys selected"
    using that remain sel(3) by auto
  from run remain kept sel strict show ?thesis
    unfolding vars_of_def by blast
qed

theorem failed_handler_entries_remain_witness:
  "get_state_variables
     (ex_rewriter ''lstm''
        [[(''ct'', (finder_of (Some ex_var), connector_noop)),
          (''ht'', (finder_of None, connector_noop))],
         [(''ct_ht'', (finder_of (Some ex_var_select), connector_noop))]])
     (ex_state [''x:0'']) =
     (Inr True,
      (ex_state [''x:0''])
        \<lparr>cx := (cx (ex_state [''x:0'']))
                 \<lparr>state_variables := [(''ct'', ex_var), (''ct_ht'', ex_var_select)]\<rparr>,
         state_variable_handler :=
           Some [(''ct_ht'', (finder_of (Some ex_var_select), connector_noop))]\<rparr>) \<and>
   keys [(''ct_ht'', (finder_of (Some ex_var_select), connector_noop))] \<subset>
     keys [(''ct'', ex_var), (''ct_ht'', ex_var_select)]"
proof -
  let ?resolved = "[(''ct'', (finder_of (Some ex_var), connector_noop))]"
  let ?missing = "(finder_of None, connector_noop)"
  let ?h2 = "[(''ct_ht'', (finder_of (Some ex_var_select), connector_noop))]"
  let ?st = "ex_state [''x:0'']"
  let ?st1 = "?st\<lparr>cx := (cx ?st)\<lparr>state_variables := [(''ct'', ex_var)]\<rparr>\<rparr>"
  let ?st3 = "?st\<lparr>cx := (cx ?st)\<lparr>state_variables := [(''ct'', ex_var), (''ct_ht'', ex_var_select)]\<rparr>,
                  state_variable_handler := Some ?h2\<rparr>"
  have handlers: "state_variable_handlers
      (ex_rewriter ''lstm'' [[(''ct'', (finder_of (Some ex_var), connector_noop)),
                              (''ht'', ?missing)], ?h2]) =
      Some ((?resolved @ (''ht'', ?missing) # []) # [?h2])"
    by (simp add: ex_rewriter_def)
  have frame: "finders_preserve vars_of ((?resolved @ (''ht'', ?missing) # []) # [?h2])"
    by (simp add: finders_preserve_def preserves_def run_hook_def finder_of_def)
  have found: "run_finders ?resolved ?st = (Inr True, ?st1)"
    by (simp add: run_hook_def finder_of_def ex_state_def create_context_def)
  have fails: "run_hook (fst ?missing) ?st1 = (Inr None, ?st1)"
    by (simp add: run_hook_def finder_of_def)
  have succeeds: "run_handlers [?h2] ?st1 = (Inr True, ?st3)"
    by (simp add: run_hook_def finder_of_def ex_state_def create_context_def)
  have strict: "keys ?h2 \<subset> keys [(''ct'', ex_var), (''ct_ht'', ex_var_select)]"
    by (auto simp: keys_def)
  from failed_handler_entries_remain [OF handlers frame found fails succeeds] strict
  show ?thesis by simp
qed

subsection \<open>Connecting the scan output\<close>

lemma make_node_eq:
  "make_node gr op_name ins at shps dts =
     (new_node op_name (next_name gr) ins at,
      gr\<lparr>nodes := nodes gr @ [new_node op_name (next_name gr) ins at],
         shapes := set_all (shapes gr) (zip [out_id op_name (next_name gr)] shps),
         dtypes := set_all (dtypes gr) (zip [out_id op_name (next_name gr)] dts),
         next_name := Suc (next_name gr)\<rparr>)"
  by (simp add: make_node_def new_node_def out_id_def Let_def)

lemma node_output_new_node [simp]: "node_output (new_node op_name k ins at) = [out_id op_name k]"
  by (simp add: new_node_def out_id_def)

lemma node_type_new_node [simp]: "node_type (new_node op_name k ins at) = op_name"
  by (simp add: new_node_def)

lemma node_input_new_node [simp]: "node_input (new_node op_name k ins at) = ins"
  by (simp add: new_node_def)

lemma node_attr_new_node [simp]: "node_attr (new_node op_name k ins at) = at"
  by (simp add: new_node_def)

lemma make_slice_eq:
  "make_slice gr data axes starts ends =
     (out_id ''Slice'' (next_name gr),
      gr\<lparr>nodes := nodes gr @ [new_node ''Slice'' (next_name gr) [data]
                      [(''starts'', AInts starts), (''ends'', AInts ends), (''axes'', AInts axes)]],
         next_name := Suc (next_name gr)\<rparr>)"
  by (simp add: make_slice_def make_node_eq set_all_def)

lemma map_if_member: "map (\<lambda>x. if x \<in> set xs then f x else x) xs = map f xs"
  by (rule map_cong) simp_all

text \<open>
  C8. When the loop has no exit of a scan output, \<^verbatim>\<open>connect_unit_rnn_output_to_graph\<close>
  returns with the state as it was: no node is made and no input is rewired. When there
  is an exit and the first output of the fused node has the shape \<open>[T, 1, B, H]\<close>, it
  makes one \<^verbatim>\<open>Squeeze\<close> node over axis 1 only, whose input is that output and whose
  output is recorded with the shape \<open>[T, B, H]\<close> and the dtype of that output, and in
  every node of the graph each input that is the identifier of the first exit becomes
  the output of the \<^verbatim>\<open>Squeeze\<close>; the context is not written.
\<close>

theorem connect_unit_rnn_output_squeezes:
  "(scan_outputs_exits (loop_properties (cx st)) = [] \<longrightarrow>
      connect_unit_rnn_output_to_graph st = (Inr (), st)) \<and>
   (scan_outputs_exits (loop_properties (cx st)) = out0 # exits \<and>
    rnn_node (cx st) = Some rnn \<and> node_output rnn = output_id # others \<and>
    get_shape (self_g st) output_id = Some [T, 1, B, H] \<longrightarrow>
      fst (connect_unit_rnn_output_to_graph st) = Inr () \<and>
      cx (snd (connect_unit_rnn_output_to_graph st)) = cx st \<and>
      nodes (self_g (snd (connect_unit_rnn_output_to_graph st))) =
        map (replace_input (tvi_id out0) (out_id ''Squeeze'' (next_name (self_g st))))
          (nodes (self_g st) @
           [new_node ''Squeeze'' (next_name (self_g st)) [output_id] [(''axes'', AInts [1])]]) \<and>
      get_shape (self_g (snd (connect_unit_rnn_output_to_graph st)))
        (out_id ''Squeeze'' (next_name (self_g st))) = Some [T, B, H] \<and>
      get_dtype (self_g (snd (connect_unit_rnn_output_to_graph st)))
        (out_id ''Squeeze'' (next_name (self_g st))) = get_dtype (self_g st) output_id)"
  by (simp add: connect_unit_rnn_output_to_graph_def make_node_eq replace_all_inputs_def
      get_nodes_def get_shape_def get_dtype_def set_all_def map_if_member Let_def)

theorem connect_unit_rnn_output_squeezes_witness:
  "connect_unit_rnn_output_to_graph
     (ex_rewritten_state\<lparr>cx := (cx ex_rewritten_state)\<lparr>loop_properties :=
        (ex_loop [''x:0''])\<lparr>scan_outputs_exits := []\<rparr>\<rparr>\<rparr>) =
     (Inr (), ex_rewritten_state\<lparr>cx := (cx ex_rewritten_state)\<lparr>loop_properties :=
        (ex_loop [''x:0''])\<lparr>scan_outputs_exits := []\<rparr>\<rparr>\<rparr>) \<and>
   nodes (self_g (snd (connect_unit_rnn_output_to_graph ex_rewritten_state))) =
     [ex_consumer\<lparr>node_input := [out_id ''Squeeze'' 8]\<rparr>, ex_rnn,
      new_node ''Squeeze'' 8 [''LSTM__7:0''] [(''axes'', AInts [1])]] \<and>
   get_shape (self_g (snd (connect_unit_rnn_output_to_graph ex_rewritten_state)))
     (out_id ''Squeeze'' 8) = Some [10, 2, 4]"
proof -
  let ?dead = "ex_rewritten_state\<lparr>cx := (cx ex_rewritten_state)\<lparr>loop_properties :=
        (ex_loop [''x:0''])\<lparr>scan_outputs_exits := []\<rparr>\<rparr>\<rparr>"
  have none: "scan_outputs_exits (loop_properties (cx ?dead)) = []"
    by simp
  have some: "scan_outputs_exits (loop_properties (cx ex_rewritten_state)) =
                \<lparr>tvi_id = ''rnn/exit:0''\<rparr> # [] \<and>
              rnn_node (cx ex_rewritten_state) = Some ex_rnn \<and>
              node_output ex_rnn = ''LSTM__7:0'' # [''LSTM__7:1'', ''LSTM__7:2''] \<and>
              get_shape (self_g ex_rewritten_state) ''LSTM__7:0'' = Some [10, 1, 2, 4]"
    by (simp add: ex_rewritten_state_def create_context_def ex_loop_def ex_rnn_def get_shape_def)
  have start: "nodes (self_g ex_rewritten_state) = [ex_consumer, ex_rnn]"
    "next_name (self_g ex_rewritten_state) = 8"
    by (simp_all add: ex_rewritten_state_def)
  have rewired: "replace_input ''rnn/exit:0'' new_id ex_consumer = ex_consumer\<lparr>node_input := [new_id]\<rparr>"
    "replace_input ''rnn/exit:0'' new_id ex_rnn = ex_rnn"
    "replace_input ''rnn/exit:0'' new_id (new_node ''Squeeze'' 8 [''LSTM__7:0''] at) =
       new_node ''Squeeze'' 8 [''LSTM__7:0''] at" for new_id at
    by (simp_all add: replace_input_def ex_consumer_def ex_rnn_def new_node_def)
  from connect_unit_rnn_output_squeezes [of ?dead] none
  have a: "connect_unit_rnn_output_to_graph ?dead = (Inr (), ?dead)"
    by blast
  from connect_unit_rnn_output_squeezes [of ex_rewritten_state "\<lparr>tvi_id = ''rnn/exit:0''\<rparr>" "[]"
      ex_rnn "''LSTM__7:0''" "[''LSTM__7:1'', ''LSTM__7:2'']" 10 2 4] some
  have b: "nodes (self_g (snd (connect_unit_rnn_output_to_graph ex_rewritten_state))) =
        map (replace_input ''rnn/exit:0'' (out_id ''Squeeze'' 8))
          ([ex_consumer, ex_rnn] @ [new_node ''Squeeze'' 8 [''LSTM__7:0''] [(''axes'', AInts [1])]])"
    and c: "get_shape (self_g (snd (connect_unit_rnn_output_to_graph ex_rewritten_state)))
        (out_id ''Squeeze'' 8) = Some [10, 2, 4]"
    by (simp_all add: start)
  from a b c rewired show ?thesis by simp
qed

subsection \<open>The nodes of the sequence length\<close>

lemma process_seq_length_synthesized:
  assumes "dict_get (onnx_input_ids (cx st)) ''X'' = Some x"
    and "seq_len_node (cx st) = None"
  shows "fst (process_seq_length st) = Inr ()"
    and "nodes (self_g (snd (process_seq_length st))) =
           nodes (self_g st) @ seq_len_nodes x (next_name (self_g st))"
    and "onnx_input_ids (cx (snd (process_seq_length st))) =
           dict_set (onnx_input_ids (cx st)) ''sequence_lens''
             (out_id ''Cast'' (next_name (self_g st) + 6))"
  using assms
  by (simp_all add: process_seq_length_def make_node_eq make_slice_eq seq_len_nodes_def Let_def
      eval_nat_numeral)

lemma process_seq_length_explicit:
  assumes "dict_get (onnx_input_ids (cx st)) ''X'' = Some x"
    and "seq_len_node (cx st) = Some nd"
    and "node_output nd = out0 # others"
  shows "fst (process_seq_length st) = Inr ()"
    and "nodes (self_g (snd (process_seq_length st))) =
           nodes (self_g st) @ take 3 (seq_len_nodes x (next_name (self_g st)))"
    and "onnx_input_ids (cx (snd (process_seq_length st))) =
           dict_set (onnx_input_ids (cx st)) ''sequence_lens'' out0"
  using assms
  by (simp_all add: process_seq_length_def make_node_eq make_slice_eq seq_len_nodes_def Let_def
      eval_nat_numeral)

lemma seq_len_nodes_types:
  "map node_type (seq_len_nodes x k) =
     [''Shape'', ''Cast'', ''Slice'', ''Cast'', ''Slice'', ''Tile'', ''Cast'']"
  by (simp add: seq_len_nodes_def)

text \<open>
  C7, as stated, fails: in the rewrite of the example loop, which has no masking
  selection, \<^verbatim>\<open>process_seq_length\<close> adds seven nodes to the graph, not four.
\<close>

theorem process_seq_length_adds_seven_nodes:
  "length (nodes (self_g (snd (process_seq_length (ex_parsed_state None))))) =
     length (nodes (self_g (ex_parsed_state None))) + 7 \<and>
   map node_type (nodes (self_g (snd (process_seq_length (ex_parsed_state None))))) =
     map node_type (nodes (self_g (ex_parsed_state None))) @
     [''Shape'', ''Cast'', ''Slice'', ''Cast'', ''Slice'', ''Tile'', ''Cast'']"
proof -
  have x: "dict_get (onnx_input_ids (cx (ex_parsed_state None))) ''X'' = Some ''x:0''"
    and n: "seq_len_node (cx (ex_parsed_state None)) = None"
    by (simp_all add: ex_parsed_state_def)
  from process_seq_length_synthesized(2) [OF x n] show ?thesis
    by (simp add: seq_len_nodes_types) (simp add: seq_len_nodes_def)
qed

text \<open>
  C7, amended. When the context has a role \<open>X\<close> and no sequence-length node,
  \<^verbatim>\<open>process_seq_length\<close> returns normally and adds exactly seven nodes to the graph, after
  the nodes there were and in this order: \<^verbatim>\<open>Shape\<close>, \<^verbatim>\<open>Cast\<close> (to \<^verbatim>\<open>FLOAT\<close>), \<^verbatim>\<open>Slice\<close>
  (the batch size), \<^verbatim>\<open>Cast\<close> (to \<^verbatim>\<open>INT64\<close>), \<^verbatim>\<open>Slice\<close> (the time steps), \<^verbatim>\<open>Tile\<close>, and
  \<^verbatim>\<open>Cast\<close> (to \<^verbatim>\<open>INT32\<close>).
\<close>

theorem process_seq_length_synthesis_nodes:
  assumes "dict_get (onnx_input_ids (cx st)) ''X'' = Some x"
    and "seq_len_node (cx st) = None"
  shows "fst (process_seq_length st) = Inr () \<and>
         nodes (self_g (snd (process_seq_length st))) =
           nodes (self_g st) @ seq_len_nodes x (next_name (self_g st)) \<and>
         length (seq_len_nodes x (next_name (self_g st))) = 7 \<and>
         map node_type (seq_len_nodes x (next_name (self_g st))) =
           [''Shape'', ''Cast'', ''Slice'', ''Cast'', ''Slice'', ''Tile'', ''Cast'']"
  using process_seq_length_synthesized(1,2) [OF assms] seq_len_nodes_types [of x]
  by (simp add: seq_len_nodes_def)

theorem process_seq_length_synthesis_nodes_witness:
  "dict_get (onnx_input_ids (cx (ex_parsed_state None))) ''X'' = Some ''x:0'' \<and>
   seq_len_node (cx (ex_parsed_state None)) = None \<and>
   fst (process_seq_length (ex_parsed_state None)) = Inr () \<and>
   nodes (self_g (snd (process_seq_length (ex_parsed_state None)))) =
     [ex_add, ex_select] @ seq_len_nodes ''x:0'' 0"
proof -
  have x: "dict_get (onnx_input_ids (cx (ex_parsed_state None))) ''X'' = Some ''x:0''"
    and n: "seq_len_node (cx (ex_parsed_state None)) = None"
    by (simp_all add: ex_parsed_state_def)
  have start: "nodes (self_g (ex_parsed_state None)) = [ex_add, ex_select]"
    "next_name (self_g (ex_parsed_state None)) = 0"
    by (simp_all add: ex_parsed_state_def ex_state_def ex_graph_def)
  from process_seq_length_synthesis_nodes [OF x n] x n start show ?thesis
    by simp
qed

text \<open>
  C9, as stated, fails: with an explicit sequence-length node in the context,
  \<^verbatim>\<open>process_seq_length\<close> binds the output of that node to \<open>sequence_lens\<close>, and yet the
  graph has three nodes more than before.
\<close>

theorem process_seq_length_explicit_adds_nodes:
  "seq_len_node (cx (ex_parsed_state (Some ex_seq_len))) = Some ex_seq_len \<and>
   dict_get (onnx_input_ids (cx (snd (process_seq_length (ex_parsed_state (Some ex_seq_len))))))
     ''sequence_lens'' = Some ''sequence_length:0'' \<and>
   length (nodes (self_g (snd (process_seq_length (ex_parsed_state (Some ex_seq_len)))))) =
     length (nodes (self_g (ex_parsed_state (Some ex_seq_len)))) + 3 \<and>
   map node_type (nodes (self_g (snd (process_seq_length (ex_parsed_state (Some ex_seq_len)))))) =
     map node_type (nodes (self_g (ex_parsed_state (Some ex_seq_len)))) @
     [''Shape'', ''Cast'', ''Slice'']"
proof -
  let ?st = "ex_parsed_state (Some ex_seq_len)"
  have x: "dict_get (onnx_input_ids (cx ?st)) ''X'' = Some ''x:0''"
    and n: "seq_len_node (cx ?st) = Some ex_seq_len"
    and o: "node_output ex_seq_len = ''sequence_length:0'' # []"
    and ids: "onnx_input_ids (cx ?st) = [(''X'', ''x:0'')]"
    by (simp_all add: ex_parsed_state_def ex_seq_len_def)
  from process_seq_length_explicit(2,3) [OF x n o] n ids show ?thesis
    by (simp add: seq_len_nodes_def)
qed

text \<open>
  C9, amended. When an explicit sequence-length node was found, \<^verbatim>\<open>process_seq_length\<close>
  binds the first output of that node to the role \<open>sequence_lens\<close> and makes none of the
  four nodes of the synthesis proper (no \<^verbatim>\<open>Tile\<close>, no \<^verbatim>\<open>Cast\<close> to \<^verbatim>\<open>INT64\<close> or \<^verbatim>\<open>INT32\<close>,
  no slice for the time steps). It still adds to the graph the three nodes that are made
  before the node is looked at: the \<^verbatim>\<open>Shape\<close> of \<open>X\<close>, its \<^verbatim>\<open>Cast\<close> to \<^verbatim>\<open>FLOAT\<close> and the
  \<^verbatim>\<open>Slice\<close> for the batch size.
\<close>

theorem process_seq_length_uses_explicit_node:
  assumes "dict_get (onnx_input_ids (cx st)) ''X'' = Some x"
    and "seq_len_node (cx st) = Some nd"
    and "node_output nd = out0 # others"
  shows "fst (process_seq_length st) = Inr () \<and>
         dict_get (onnx_input_ids (cx (snd (process_seq_length st)))) ''sequence_lens'' =
           Some out0 \<and>
         nodes (self_g (snd (process_seq_length st))) =
           nodes (self_g st) @ take 3 (seq_len_nodes x (next_name (self_g st))) \<and>
         map node_type (take 3 (seq_len_nodes x (next_name (self_g st)))) =
           [''Shape'', ''Cast'', ''Slice'']"
  using process_seq_length_explicit [OF assms]
  by (simp add: dict_get_dict_set seq_len_nodes_def)

theorem process_seq_length_uses_explicit_node_witness:
  "dict_get (onnx_input_ids (cx (ex_parsed_state (Some ex_seq_len)))) ''X'' = Some ''x:0'' \<and>
   fst (process_seq_length (ex_parsed_state (Some ex_seq_len))) = Inr () \<and>
   dict_get (onnx_input_ids (cx (snd (process_seq_length (ex_parsed_state (Some ex_seq_len))))))
     ''sequence_lens'' = Some ''sequence_length:0'' \<and>
   nodes (self_g (snd (process_seq_length (ex_parsed_state (Some ex_seq_len))))) =
     [ex_add, ex_select] @ take 3 (seq_len_nodes ''x:0'' 0)"
proof -
  let ?st = "ex_parsed_state (Some ex_seq_len)"
  have x: "dict_get (onnx_input_ids (cx ?st)) ''X'' = Some ''x:0''"
    and n: "seq_len_node (cx ?st) = Some ex_seq_len"
    and o: "node_output ex_seq_len = ''sequence_length:0'' # []"
    by (simp_all add: ex_parsed_state_def ex_seq_len_def)
  have start: "nodes (self_g ?st) = [ex_add, ex_select]" "next_name (self_g ?st) = 0"
    by (simp_all add: ex_parsed_state_def ex_state_def ex_graph_def)
  from process_seq_length_uses_explicit_node [OF x n o] x start show ?thesis
    by simp
qed

subsection \<open>Names of made nodes are distinct\<close>

lemma digit_char_inj:
  assumes "a < 10" and "b < 10" and "digit_char a = digit_char b"
  shows "a = b"
proof -
  from assms(3) have "of_char (char_of (48 + a) :: char) = (of_char (char_of (48 + b) :: char) :: nat)"
    by (simp add: digit_char_def)
  with assms(1,2) show ?thesis by simp
qed

lemma string_of_nat_nonempty: "string_of_nat n \<noteq> []"
  by (subst string_of_nat.simps) simp

lemma string_of_nat_inj:
  "string_of_nat a = string_of_nat b \<Longrightarrow> a = b"
proof (induction a arbitrary: b rule: string_of_nat.induct)
  case (1 n)
  show ?case
  proof (cases "n < 10")
    case True
    show ?thesis
    proof (cases "b < 10")
      case True
      with \<open>n < 10\<close> "1.prems" show ?thesis
        by (simp add: string_of_nat.simps [of n] string_of_nat.simps [of b] digit_char_inj)
    next
      case False
      with \<open>n < 10\<close> "1.prems" show ?thesis
        using string_of_nat_nonempty [of "b div 10"]
        by (simp add: string_of_nat.simps [of n] string_of_nat.simps [of b])
    qed
  next
    case False
    show ?thesis
    proof (cases "b < 10")
      case True
      with False "1.prems" show ?thesis
        using string_of_nat_nonempty [of "n div 10"]
        by (simp add: string_of_nat.simps [of n] string_of_nat.simps [of b])
    next
      case large: False
      from False large "1.prems" have e1: "string_of_nat (n div 10) = string_of_nat (b div 10)"
        and e2: "digit_char (n mod 10) = digit_char (b mod 10)"
        by (simp_all add: string_of_nat.simps [of n] string_of_nat.simps [of b])
      from "1.IH" [OF False e1] have "n div 10 = b div 10" .
      moreover from e2 have "n mod 10 = b mod 10" by (intro digit_char_inj) simp_all
      ultimately show ?thesis by (metis div_mult_mod_eq)
    qed
  qed
qed

lemma string_of_nat_eq_iff: "string_of_nat a = string_of_nat b \<longleftrightarrow> a = b"
  using string_of_nat_inj by auto

lemma out_id_eq_iff:
  "out_id a m = out_id b n \<longleftrightarrow> a @ ''__'' @ string_of_nat m = b @ ''__'' @ string_of_nat n"
  by (simp add: out_id_def port_name_def make_name_def)

lemma find_append_cases:
  "find P (xs @ ys) = (case find P xs of None \<Rightarrow> find P ys | Some x \<Rightarrow> Some x)"
  by (induction xs) auto

lemma get_node_by_output_added:
  assumes "nodes gr = old @ added"
    and "find (\<lambda>nd. i \<in> set (node_output nd)) (rev added) = Some nd"
  shows "get_node_by_output gr i = Some nd"
  using assms by (simp add: get_node_by_output_def find_append_cases)

lemma seq_len_nodes_lookup:
  assumes "nodes gr = old @ seq_len_nodes x k"
  shows "get_node_by_output gr (out_id ''Shape'' k) = Some (seq_len_nodes x k ! 0)"
    and "get_node_by_output gr (out_id ''Cast'' (k + 1)) = Some (seq_len_nodes x k ! 1)"
    and "get_node_by_output gr (out_id ''Slice'' (k + 2)) = Some (seq_len_nodes x k ! 2)"
    and "get_node_by_output gr (out_id ''Cast'' (k + 3)) = Some (seq_len_nodes x k ! 3)"
    and "get_node_by_output gr (out_id ''Slice'' (k + 4)) = Some (seq_len_nodes x k ! 4)"
    and "get_node_by_output gr (out_id ''Tile'' (k + 5)) = Some (seq_len_nodes x k ! 5)"
    and "get_node_by_output gr (out_id ''Cast'' (k + 6)) = Some (seq_len_nodes x k ! 6)"
  by (rule get_node_by_output_added [OF assms],
      simp add: seq_len_nodes_def out_id_eq_iff string_of_nat_eq_iff)+


subsection \<open>The value of the synthesized sequence length\<close>

lemma bitlen_0 [simp]: "bitlen 0 = 0"
  by (simp add: bitlen.simps)

lemma bitlen_le:
  "n < 2 ^ k \<Longrightarrow> bitlen n \<le> k"
proof (induction k arbitrary: n)
  case 0
  then show ?case by simp
next
  case (Suc k)
  show ?case
  proof (cases "n = 0")
    case True
    then show ?thesis by simp
  next
    case False
    from Suc.prems have "n div 2 < 2 ^ k" by simp
    from Suc.IH [OF this] False show ?thesis by (simp add: bitlen.simps [of n])
  qed
qed

lemma float32_round_small:
  assumes "n < 2 ^ 24"
  shows "float32_round (int n) = int n"
  using bitlen_le [OF assms] by (simp add: float32_round_def Let_def)

lemma concat_replicate_single: "concat (replicate n [x]) = replicate n x"
  by (induction n) simp_all

lemma list_all_replicate_iff: "list_all P (replicate n x) \<longleftrightarrow> n = 0 \<or> P x"
  by (induction n) auto

lemmas tensor_defs = cast_tensor_def slice_tensor_def tile_tensor_def TensorProto_FLOAT_def
  TensorProto_INT32_def TensorProto_INT64_def

lemma seq_len_nodes_value:
  assumes gr: "nodes gr = old @ seq_len_nodes x k"
    and shape: "runtime_shape x = Some [T, B, F]"
    and batch: "float32_round (int B) = int B" "int B < 2 ^ 63"
    and time: "- (2 ^ 31) \<le> float32_round (int T)" "float32_round (int T) < 2 ^ 31"
  shows "eval_tensor 6 gr runtime_shape (out_id ''Cast'' (k + 6)) =
           Some (Tensor TensorProto_INT32 (replicate B (float32_round (int T))))"
proof -
  note lookup = seq_len_nodes_lookup [OF gr]
  have shape_value: "eval_tensor (Suc n) gr runtime_shape (out_id ''Shape'' k) =
      Some (Tensor TensorProto_INT64 [int T, int B, int F])" for n
    using lookup(1) shape by (simp add: seq_len_nodes_def)
  have cast_value: "eval_tensor (Suc (Suc n)) gr runtime_shape (out_id ''Cast'' (k + 1)) =
      Some (Tensor TensorProto_FLOAT
              [float32_round (int T), int B, float32_round (int F)])" for n
    using lookup(2) shape_value [of n] batch(1)
    by (simp add: seq_len_nodes_def tensor_defs)
  have batch_value: "eval_tensor (Suc (Suc (Suc n))) gr runtime_shape (out_id ''Slice'' (k + 2)) =
      Some (Tensor TensorProto_FLOAT [int B])" for n
    using lookup(3) cast_value [of n]
    by (simp add: seq_len_nodes_def tensor_defs Let_def)
  have repeat_value: "eval_tensor (Suc (Suc (Suc (Suc n)))) gr runtime_shape (out_id ''Cast'' (k + 3)) =
      Some (Tensor TensorProto_INT64 [int B])" for n
    using lookup(4) batch_value [of n] batch(2)
    by (simp add: seq_len_nodes_def tensor_defs)
  have time_value: "eval_tensor (Suc (Suc (Suc n))) gr runtime_shape (out_id ''Slice'' (k + 4)) =
      Some (Tensor TensorProto_FLOAT [float32_round (int T)])" for n
    using lookup(5) cast_value [of n]
    by (simp add: seq_len_nodes_def tensor_defs Let_def)
  have tile_value: "eval_tensor (Suc (Suc (Suc (Suc (Suc n))))) gr runtime_shape (out_id ''Tile'' (k + 5)) =
      Some (Tensor TensorProto_FLOAT (replicate B (float32_round (int T))))" for n
    using lookup(6) time_value [of "Suc n"] repeat_value [of n]
    by (simp add: seq_len_nodes_def tensor_defs concat_replicate_single)
  have "eval_tensor (Suc (Suc (Suc (Suc (Suc (Suc 0)))))) gr runtime_shape (out_id ''Cast'' (k + 6)) =
      Some (Tensor TensorProto_INT32 (replicate B (float32_round (int T))))"
    using lookup(7) tile_value [of 0] time
    by (simp add: seq_len_nodes_def tensor_defs list_all_replicate_iff)
  then show ?thesis by (simp add: eval_nat_numeral)
qed

text \<open>
  C6, as stated, fails. The shape of \<open>X\<close> reaches the tile through a \<^verbatim>\<open>Cast\<close> to
  \<^verbatim>\<open>FLOAT\<close>, and a single-precision float keeps 24 binary digits: for the input of
  shape \<open>[16777217, 2, 3]\<close> and no sequence-length node, the synthesized tensor has two
  elements of type \<^verbatim>\<open>INT32\<close>, and each is \<open>16777216\<close>, not \<open>T = 16777217\<close>.
\<close>

theorem process_seq_length_rounds_long_sequence:
  "eval_tensor 6 (self_g (snd (process_seq_length (ex_parsed_state None))))
     (ex_runtime_shape 16777217) (out_id ''Cast'' 6) =
     Some (Tensor TensorProto_INT32 [16777216, 16777216]) \<and>
   dict_get (onnx_input_ids (cx (snd (process_seq_length (ex_parsed_state None)))))
     ''sequence_lens'' = Some (out_id ''Cast'' 6)"
proof -
  let ?st = "ex_parsed_state None"
  have x: "dict_get (onnx_input_ids (cx ?st)) ''X'' = Some ''x:0''"
    and n: "seq_len_node (cx ?st) = None"
    and k: "next_name (self_g ?st) = 0"
    and ids: "onnx_input_ids (cx ?st) = [(''X'', ''x:0'')]"
    by (simp_all add: ex_parsed_state_def ex_state_def ex_graph_def)
  have gr: "nodes (self_g (snd (process_seq_length ?st))) =
      nodes (self_g ?st) @ seq_len_nodes ''x:0'' 0"
    using process_seq_length_synthesized(2) [OF x n] k by simp
  have shape: "ex_runtime_shape 16777217 ''x:0'' = Some [16777217, 2, 3]"
    by (simp add: ex_runtime_shape_def)
  have "bitlen 16777217 = 25"
    by (simp add: bitlen.simps)
  then have rounded: "float32_round (int 16777217) = 16777216"
    by (simp add: float32_round_def Let_def)
  have batch: "float32_round (int 2) = int 2" "int 2 < 2 ^ 63"
    using float32_round_small [of 2] by simp_all
  from seq_len_nodes_value [where runtime_shape = "ex_runtime_shape 16777217", OF gr shape batch]
    rounded
  have "eval_tensor 6 (self_g (snd (process_seq_length ?st))) (ex_runtime_shape 16777217)
          (out_id ''Cast'' (0 + 6)) =
        Some (Tensor TensorProto_INT32 (replicate 2 16777216))"
    by simp
  moreover have "replicate 2 v = [v, v]" for v :: int
    by (simp add: numeral_2_eq_2)
  moreover have "dict_get (onnx_input_ids (cx (snd (process_seq_length ?st)))) ''sequence_lens'' =
      Some (out_id ''Cast'' 6)"
    using process_seq_length_synthesized(3) [OF x n] k ids by simp
  ultimately show ?thesis by simp
qed

text \<open>
  C6, amended. Let the context have no sequence-length node and let \<open>X\<close> have the
  run-time shape \<open>[T, B, F]\<close>, where \<open>T\<close> and \<open>B\<close> are exactly representable in single
  precision (as every number below \<open>2 ^ 24\<close> is), \<open>T\<close> is below \<open>2 ^ 31\<close> and \<open>B\<close> below
  \<open>2 ^ 63\<close>. Then \<^verbatim>\<open>process_seq_length\<close> binds to the role \<open>sequence_lens\<close> an identifier
  whose value at run time is a tensor of element type \<^verbatim>\<open>INT32\<close> with exactly \<open>B\<close>
  elements, each equal to \<open>T\<close>. The element type is that of the last \<^verbatim>\<open>Cast\<close>, which the
  code fixes, whatever the element type of the input.
\<close>

theorem process_seq_length_value:
  assumes "dict_get (onnx_input_ids (cx st)) ''X'' = Some x"
    and "seq_len_node (cx st) = None"
    and "runtime_shape x = Some [T, B, F]"
    and "float32_round (int T) = int T" and "float32_round (int B) = int B"
    and "int T < 2 ^ 31" and "int B < 2 ^ 63"
  shows "\<exists>seq_lens.
           fst (process_seq_length st) = Inr () \<and>
           dict_get (onnx_input_ids (cx (snd (process_seq_length st)))) ''sequence_lens'' =
             Some seq_lens \<and>
           eval_tensor 6 (self_g (snd (process_seq_length st))) runtime_shape seq_lens =
             Some (Tensor TensorProto_INT32 (replicate B (int T)))"
proof -
  note made = process_seq_length_synthesized [OF assms(1,2)]
  have "eval_tensor 6 (self_g (snd (process_seq_length st))) runtime_shape
          (out_id ''Cast'' (next_name (self_g st) + 6)) =
        Some (Tensor TensorProto_INT32 (replicate B (float32_round (int T))))"
    using assms(4,6)
    by (intro seq_len_nodes_value [where runtime_shape = runtime_shape, OF made(2) assms(3,5,7)])
      simp_all
  with made(1,3) assms(4) show ?thesis
    by (simp add: dict_get_dict_set)
qed

theorem process_seq_length_value_witness:
  "\<exists>seq_lens.
     fst (process_seq_length (ex_parsed_state None)) = Inr () \<and>
     dict_get (onnx_input_ids (cx (snd (process_seq_length (ex_parsed_state None)))))
       ''sequence_lens'' = Some seq_lens \<and>
     eval_tensor 6 (self_g (snd (process_seq_length (ex_parsed_state None))))
       (ex_runtime_shape 5) seq_lens = Some (Tensor TensorProto_INT32 [5, 5])"
proof -
  let ?st = "ex_parsed_state None"
  have x: "dict_get (onnx_input_ids (cx ?st)) ''X'' = Some ''x:0''"
    and n: "seq_len_node (cx ?st) = None"
    by (simp_all add: ex_parsed_state_def)
  have shape: "ex_runtime_shape 5 ''x:0'' = Some [5, 2, 3]"
    by (simp add: ex_runtime_shape_def)
  have exact: "float32_round (int 5) = int 5" "float32_round (int 2) = int 2"
    using float32_round_small [of 5] float32_round_small [of 2] by simp_all
  have small: "int 5 < 2 ^ 31" "int 2 < 2 ^ 63"
    by simp_all
  have "replicate 2 v = [v, v]" for v :: int
    by (simp add: numeral_2_eq_2)
  with process_seq_length_value [where runtime_shape = "ex_runtime_shape 5", OF x n shape exact small]
  show ?thesis
    by simp
qed

end
